theory Spec2Isabelle
  imports Complex_Main "HOL-Library.Sublist" "HOL-Library.Multiset"
begin

section \<open>The ETH/BTC liquidity turnover dashboard: normalizer, validator, scorer, categorizer\<close>

text \<open>
  A shallow embedding of the data pipeline of \<^verbatim>\<open>script.js\<close> (the revision with fees and
  APR) and of \<^verbatim>\<open>config.js\<close>: normalization of raw records, validation, scoring and
  ranking, categorization.

  Modelling conventions.
  \<^item> A JavaScript number is an exact rational (\<open>rat\<close>). IEEE rounding, \<open>NaN\<close> and the
    infinities as number values are not represented. Where the source tests for \<open>NaN\<close>
    (\<open>isNaN(parsed)\<close>, \<open>parseFloat(x) || 0\<close>), the \<open>NaN\<close> result of \<open>parseFloat\<close> is
    \<open>None\<close>. \<open>parseFloat\<close> is modelled on decimal literals; the literal \<open>Infinity\<close>,
    which has no rational value, reads as \<open>None\<close> too.
  \<^item> A JavaScript string is a \<open>string\<close>, a list of 8-bit characters; letter case and
    white space are those of that range.
  \<^item> \<open>null\<close> and \<open>undefined\<close> in a field of known type are \<open>None\<close>; a field whose type
    the upstream API does not fix is a \<open>jsval\<close>, where \<open>JObj\<close> stands for a plain object.
  \<^item> \<open>Math.random\<close> is an explicit source of draws, threaded through the normalizer.
  \<^item> Logging (\<open>logMessage\<close>) has no effect on any value and is left out.
\<close>

subsection \<open>JavaScript values and strings\<close>

datatype jsval = JUndefined | JNull | JBool bool | JNum rat | JStr string | JObj

text \<open>Truthiness, as \<open>if (v)\<close>, \<open>!v\<close> and \<open>v || w\<close> test it.\<close>

fun truthy :: "jsval \<Rightarrow> bool" where
  "truthy JUndefined = False"
| "truthy JNull = False"
| "truthy (JBool b) = b"
| "truthy (JNum x) = (x \<noteq> 0)"
| "truthy (JStr s) = (s \<noteq> [])"
| "truthy JObj = True"

definition is_digit :: "char \<Rightarrow> bool" where
  "is_digit c = (let n = (of_char c :: nat) in 48 \<le> n \<and> n \<le> 57)"

definition digit_val :: "char \<Rightarrow> int" where
  "digit_val c = (of_char c :: int) - 48"

text \<open>White space as \<open>trim\<close>, \<open>parseFloat\<close> and the regular expression class
  \<open>\s\<close> see it, within 8-bit characters: TAB, LF, VT, FF, CR, SP, NBSP.\<close>

definition is_space :: "char \<Rightarrow> bool" where
  "is_space c = ((of_char c :: nat) \<in> {9, 10, 11, 12, 13, 32, 160})"

text \<open>The regular expression class \<open>\w\<close>: letters, digits and the underscore.\<close>

definition is_word :: "char \<Rightarrow> bool" where
  "is_word c = (let n = (of_char c :: nat) in
     (48 \<le> n \<and> n \<le> 57) \<or> (65 \<le> n \<and> n \<le> 90) \<or> n = 95 \<or> (97 \<le> n \<and> n \<le> 122))"

definition lower_char :: "char \<Rightarrow> char" where
  "lower_char c = (let n = (of_char c :: nat) in
     if 65 \<le> n \<and> n \<le> 90 then char_of (n + 32) else c)"

definition toLowerCase :: "string \<Rightarrow> string" where
  "toLowerCase s = map lower_char s"

text \<open>\<open>s.includes(t)\<close>: \<open>t\<close> occurs in \<open>s\<close> as a contiguous substring.\<close>

fun str_includes :: "string \<Rightarrow> string \<Rightarrow> bool" where
  "str_includes [] t = (t = [])"
| "str_includes (c # cs) t = (prefix t (c # cs) \<or> str_includes cs t)"

text \<open>\<open>s.trim()\<close>.\<close>

definition trim :: "string \<Rightarrow> string" where
  "trim s = rev (dropWhile is_space (rev (dropWhile is_space s)))"

text \<open>\<open>s.replace('%', '')\<close>: the first occurrence only.\<close>

fun replace_first_pct :: "string \<Rightarrow> string" where
  "replace_first_pct [] = []"
| "replace_first_pct (c # cs) = (if c = CHR ''%'' then cs else c # replace_first_pct cs)"

subsection \<open>\<open>parseFloat\<close>\<close>

definition digits_val :: "string \<Rightarrow> int" where
  "digits_val ds = foldl (\<lambda>acc d. 10 * acc + digit_val d) 0 ds"

text \<open>The optional exponent part \<open>[eE][+-]?digits\<close>; an \<open>e\<close> that no digit follows is
  not part of the literal.\<close>

definition exponent_part :: "string \<Rightarrow> int" where
  "exponent_part s =
     (case s of
        [] \<Rightarrow> 0
      | c # r \<Rightarrow>
          if c = CHR ''e'' \<or> c = CHR ''E'' then
            (case r of
               [] \<Rightarrow> 0
             | d # r' \<Rightarrow>
                 if d = CHR ''-'' then - digits_val (takeWhile is_digit r')
                 else if d = CHR ''+'' then digits_val (takeWhile is_digit r')
                 else digits_val (takeWhile is_digit r))
          else 0)"

definition scale10 :: "rat \<Rightarrow> int \<Rightarrow> rat" where
  "scale10 m e = (if 0 \<le> e then m * 10 ^ nat e else m / 10 ^ nat (- e))"

text \<open>The unsigned literal: \<open>digits [. digits] [exp]\<close> or \<open>. digits [exp]\<close>, the longest
  such prefix; \<open>None\<close> is \<open>NaN\<close>.\<close>

definition unsigned_literal :: "string \<Rightarrow> rat option" where
  "unsigned_literal s =
     (let ip = takeWhile is_digit s; r = dropWhile is_digit s
      in case r of
           c # r' \<Rightarrow>
             if c = CHR ''.'' then
               (let fp = takeWhile is_digit r'; r'' = dropWhile is_digit r'
                in if ip = [] \<and> fp = [] then None
                   else Some (scale10 (of_int (digits_val ip)
                                  + of_int (digits_val fp) / 10 ^ length fp)
                                (exponent_part r'')))
             else if ip = [] then None
             else Some (scale10 (of_int (digits_val ip)) (exponent_part r))
         | [] \<Rightarrow> if ip = [] then None else Some (of_int (digits_val ip)))"

definition parseFloat :: "string \<Rightarrow> rat option" where
  "parseFloat s =
     (case dropWhile is_space s of
        [] \<Rightarrow> None
      | c # r \<Rightarrow>
          if c = CHR ''-'' then map_option uminus (unsigned_literal r)
          else if c = CHR ''+'' then unsigned_literal r
          else unsigned_literal (c # r))"

text \<open>\<open>parseFloat(v)\<close> on a raw field: a number reads as itself, a string is parsed, and
  every other value converts to a string with no numeric prefix.\<close>

fun parseFloat_val :: "jsval \<Rightarrow> rat option" where
  "parseFloat_val (JNum x) = Some x"
| "parseFloat_val (JStr s) = parseFloat s"
| "parseFloat_val _ = None"

text \<open>\<open>parseFloat(v) || 0\<close>.\<close>

definition parseFloat_or_0 :: "jsval \<Rightarrow> rat" where
  "parseFloat_or_0 v = (case parseFloat_val v of None \<Rightarrow> 0 | Some x \<Rightarrow> x)"

subsection \<open>Configuration (\<^verbatim>\<open>config.js\<close>)\<close>

datatype asset_class = BTC | ETH | STABLE

text \<open>\<open>CONFIG.ASSET_CLASSES\<close>, an association list: \<open>for (... in ...)\<close> visits the keys in
  the order they are written.\<close>

definition ASSET_CLASSES :: "(asset_class \<times> string list) list" where
  "ASSET_CLASSES =
     [(BTC, [''btc'', ''wbtc'', ''cbbtc'', ''kbtc'', ''tbtc'', ''ebtc'', ''renbtc'', ''sbtc'', ''hbtc'']),
      (ETH, [''eth'', ''weth'', ''eeth'', ''steth'', ''wsteth'', ''reth'', ''cbeth'', ''seth'', ''meth'']),
      (STABLE, [''usdc'', ''usdt'', ''dai'', ''usdbc'', ''frax'', ''lusd'', ''usds'', ''crvusd'',
                ''tusd'', ''busd'', ''gusd'', ''usdp'', ''usdd''])]"

definition MIN_LIQUIDITY :: rat where
  "MIN_LIQUIDITY = 100000"

definition MIN_VOLUME_24H :: rat where
  "MIN_VOLUME_24H = 10000"

definition DEFAULT_FEE_PERCENT :: rat where
  "DEFAULT_FEE_PERCENT = 3 / 10"

definition CHAIN_TO_GECKO_ID :: "(string \<times> string) list" where
  "CHAIN_TO_GECKO_ID =
     [(''ethereum'', ''eth''), (''arbitrum'', ''arbitrum''), (''optimism'', ''optimism''),
      (''base'', ''base''), (''polygon'', ''polygon_pos''), (''zksync'', ''zksync''),
      (''linea'', ''linea''), (''scroll'', ''scroll''), (''blast'', ''blast'')]"

definition CHAIN_ID_MAP :: "(string \<times> string) list" where
  "CHAIN_ID_MAP =
     [(''eth'', ''ethereum''), (''ethereum'', ''ethereum''), (''arbitrum'', ''arbitrum''),
      (''optimism'', ''optimism''), (''base'', ''base''), (''polygon'', ''polygon''),
      (''polygon_pos'', ''polygon''), (''zksync'', ''zksync''), (''linea'', ''linea''),
      (''scroll'', ''scroll''), (''blast'', ''blast''), (''sol'', ''solana''), (''bsc'', ''bsc'')]"

text \<open>\<open>TABLE[key] || key\<close> for a table all of whose values are non-empty strings.\<close>

definition lookup_or_key :: "(string \<times> string) list \<Rightarrow> string \<Rightarrow> string" where
  "lookup_or_key table k = (case map_of table k of Some v \<Rightarrow> v | None \<Rightarrow> k)"

subsection \<open>Fee and yield helpers\<close>

text \<open>\<open>calculateApr\<close>; \<open>!x\<close> on a number is \<open>x = 0\<close>.\<close>

definition calculateApr :: "rat \<Rightarrow> rat \<Rightarrow> rat \<Rightarrow> rat" where
  "calculateApr volumeUsd24h liquidityUsd feePercent =
     (if liquidityUsd = 0 \<or> liquidityUsd \<le> 0 \<or> feePercent = 0 then 0
      else let feeRate = feePercent / 100;
               dailyFees = volumeUsd24h * feeRate;
               annualFees = dailyFees * 365;
               apr = (annualFees / liquidityUsd) * 100
           in apr)"

text \<open>\<open>parseFeeToPercent\<close>; the result \<open>None\<close> is \<open>null\<close>.\<close>

fun parseFeeToPercent :: "jsval \<Rightarrow> rat option" where
  "parseFeeToPercent JNull = None"
| "parseFeeToPercent JUndefined = None"
| "parseFeeToPercent (JNum feeValue) =
     (if feeValue > 100 then Some (feeValue / 10000)
      else if feeValue < 1 then Some (feeValue * 100)
      else Some feeValue)"
| "parseFeeToPercent (JStr feeValue) =
     (let cleaned = trim (replace_first_pct feeValue)
      in case parseFloat cleaned of
           None \<Rightarrow> None
         | Some parsed \<Rightarrow>
             if CHR ''%'' \<in> set feeValue then Some parsed
             else if parsed > 100 then Some (parsed / 10000)
             else if parsed < 1 then Some (parsed * 100)
             else Some parsed)"
| "parseFeeToPercent _ = None"

subsection \<open>The two regular expressions of the fee extraction\<close>

text \<open>\<open>/(\d+\.?\d*)\s*%/\<close> anchored at the head of the string, returning the captured
  group. Every quantifier is greedy and no shorter choice can succeed where the longest
  fails: after a shorter run of digits the next character is a digit, which neither
  \<open>\.\<close>, \<open>\s\<close> nor \<open>%\<close> accepts.\<close>

definition percent_at :: "string \<Rightarrow> string option" where
  "percent_at s =
     (let d1 = takeWhile is_digit s; r1 = dropWhile is_digit s
      in if d1 = [] then None
         else case r1 of
                [] \<Rightarrow> None
              | c # r2 \<Rightarrow>
                  if c = CHR ''.'' then
                    (let d2 = takeWhile is_digit r2; r3 = dropWhile is_digit r2
                     in case dropWhile is_space r3 of
                          [] \<Rightarrow> None
                        | p # _ \<Rightarrow> if p = CHR ''%'' then Some (d1 @ ''.'' @ d2) else None)
                  else (case dropWhile is_space r1 of
                          [] \<Rightarrow> None
                        | p # _ \<Rightarrow> if p = CHR ''%'' then Some d1 else None))"

text \<open>\<open>s.match(/(\d+\.?\d*)\s*%/)\<close>: the leftmost start position that matches.\<close>

fun match_percent :: "string \<Rightarrow> string option" where
  "match_percent [] = None"
| "match_percent (c # cs) =
     (case percent_at (c # cs) of Some g \<Rightarrow> Some g | None \<Rightarrow> match_percent cs)"

text \<open>\<open>/\b(0\.01|0\.05|0\.3|0\.30|1|1\.0)\b/\<close>: the alternatives in the order written,
  each followed by a word boundary.\<close>

definition tier_literals :: "string list" where
  "tier_literals = [''0.01'', ''0.05'', ''0.3'', ''0.30'', ''1'', ''1.0'']"

definition tier_at :: "string \<Rightarrow> string option" where
  "tier_at s =
     find (\<lambda>lit. prefix lit s \<and>
                 (case drop (length lit) s of [] \<Rightarrow> True | c # _ \<Rightarrow> \<not> is_word c))
          tier_literals"

text \<open>The first argument says whether the character before the position is a word
  character: every alternative starts with a digit, so the leading \<open>\b\<close> holds exactly
  when it is not.\<close>

fun match_tier_from :: "bool \<Rightarrow> string \<Rightarrow> string option" where
  "match_tier_from prev_word [] = None"
| "match_tier_from prev_word (c # cs) =
     (if prev_word then match_tier_from (is_word c) cs
      else case tier_at (c # cs) of
             Some g \<Rightarrow> Some g
           | None \<Rightarrow> match_tier_from (is_word c) cs)"

definition match_tier :: "string \<Rightarrow> string option" where
  "match_tier s = match_tier_from False s"

subsection \<open>Asset classes and pair types\<close>

text \<open>\<open>resolveAssetClass\<close>. The argument \<open>None\<close> is an absent symbol; \<open>!symbol\<close> also
  holds of the empty string.\<close>

definition resolveAssetClass :: "string option \<Rightarrow> asset_class option" where
  "resolveAssetClass symbol =
     (case symbol of
        None \<Rightarrow> None
      | Some s \<Rightarrow>
          if s = [] then None
          else let lowerSymbol = toLowerCase s
               in map_option fst
                    (find (\<lambda>(assetClass, alts). list_ex (\<lambda>alt. str_includes lowerSymbol alt) alts)
                          ASSET_CLASSES))"

text \<open>The pair types \<open>'btc-stable'\<close>, \<open>'eth-stable'\<close>, \<open>'btc-eth'\<close>, \<open>'wrapped'\<close>.\<close>

datatype pair_type = BtcStable | EthStable | BtcEth | Wrapped

definition determinePairType :: "asset_class option \<Rightarrow> asset_class option \<Rightarrow> pair_type option" where
  "determinePairType baseAsset quoteAsset =
     (if baseAsset = Some BTC \<and> quoteAsset = Some BTC then Some Wrapped
      else if baseAsset = Some ETH \<and> quoteAsset = Some ETH then Some Wrapped
      else if baseAsset = Some BTC \<and> quoteAsset = Some STABLE then Some BtcStable
      else if baseAsset = Some ETH \<and> quoteAsset = Some STABLE then Some EthStable
      else if baseAsset = Some BTC \<and> quoteAsset = Some ETH then Some BtcEth
      else if baseAsset = Some ETH \<and> quoteAsset = Some BTC then Some BtcEth
      else if baseAsset = Some STABLE \<and> quoteAsset = Some BTC then Some BtcStable
      else if baseAsset = Some STABLE \<and> quoteAsset = Some ETH then Some EthStable
      else None)"

definition areDifferentVariants :: "string \<Rightarrow> string \<Rightarrow> asset_class option \<Rightarrow> bool" where
  "areDifferentVariants symbol1 symbol2 assetClass =
     (if symbol1 = [] \<or> symbol2 = [] \<or> assetClass = None then False
      else let lower1 = toLowerCase symbol1; lower2 = toLowerCase symbol2
           in if lower1 = lower2 then False
              else case assetClass of
                     None \<Rightarrow> False
                   | Some cls \<Rightarrow>
                       (case map_of ASSET_CLASSES cls of
                          None \<Rightarrow> False
                        | Some variants \<Rightarrow>
                            (let match1 = list_ex (\<lambda>v. str_includes lower1 v) variants;
                                 match2 = list_ex (\<lambda>v. str_includes lower2 v) variants
                             in match1 \<and> match2)))"

subsection \<open>Raw records and canonical pools\<close>

text \<open>The \<open>attributes\<close> object of a GeckoTerminal record. \<open>network_identifier\<close> is
  \<open>attrs.network?.identifier\<close> and \<open>volume_usd_h24\<close> is \<open>attrs.volume_usd?.h24\<close>.\<close>

record gecko_attrs =
  attr_name :: "string option"
  base_token_symbol :: "string option"
  quote_token_symbol :: "string option"
  network_identifier :: "string option"
  network_id :: "string option"
  reserve_in_usd :: jsval
  volume_usd_h24 :: jsval
  swap_fee :: jsval
  fee :: jsval
  pool_fee :: jsval
  pool_url :: "string option"

text \<open>\<open>pool.attributes || {}\<close>: every field of the empty object is \<open>undefined\<close>.\<close>

definition no_attrs :: gecko_attrs where
  "no_attrs = \<lparr>attr_name = None, base_token_symbol = None, quote_token_symbol = None,
     network_identifier = None, network_id = None, reserve_in_usd = JUndefined,
     volume_usd_h24 = JUndefined, swap_fee = JUndefined, fee = JUndefined,
     pool_fee = JUndefined, pool_url = None\<rparr>"

text \<open>A raw record as the orchestrator hands it over: the fields either source may
  carry, and the provenance tags \<open>_source\<close>, \<open>_sourceRank\<close>, \<open>_chain\<close>.
  \<open>baseToken_symbol\<close> is \<open>(pool.baseToken || {}).symbol\<close>, \<open>liquidity_usd\<close> is
  \<open>pool.liquidity?.usd\<close> and \<open>volume_h24\<close> is \<open>pool.volume?.h24\<close>; \<open>labels\<close> is
  \<open>Some\<close> exactly when the field is an array (of strings).\<close>

record raw_pool =
  raw_id :: "string option"
  attributes :: "gecko_attrs option"
  pairAddress :: "string option"
  baseToken_symbol :: "string option"
  quoteToken_symbol :: "string option"
  chainId :: "string option"
  labels :: "string list option"
  raw_feeTier :: jsval
  pairName :: "string option"
  liquidity_usd :: jsval
  volume_h24 :: jsval
  url :: "string option"
  tag_source :: "string option"
  tag_sourceRank :: jsval
  tag_chain :: "string option"

text \<open>A pool object. \<open>poolId\<close> is the field \<open>id\<close>; \<open>score\<close> and \<open>apr\<close> are \<open>null\<close>
  until the scorer sets them. The type parameter is the type of \<open>liquidityUsd\<close> and
  \<open>volumeUsd24h\<close>: both normalizers store \<open>parseFloat(...) || 0\<close> there, a number, so the
  canonical pool they build and the scorer reads has numbers in the two fields
  (\<open>pool\<close>); the validator, which tests the type of what it finds there, takes the
  object with arbitrary values in them (\<open>pool_value\<close>).\<close>

record 'n pool_of =
  poolId :: "string option"
  name :: string
  baseAsset :: "asset_class option"
  quoteAsset :: "asset_class option"
  pairType :: "pair_type option"
  liquidityUsd :: 'n
  volumeUsd24h :: 'n
  feeTier :: "rat option"
  chain :: string
  source :: "string option"
  sourceRank :: jsval
  score :: "rat option"
  apr :: "rat option"
  poolUrl :: "string option"

type_synonym pool = "rat pool_of"

type_synonym pool_value = "jsval pool_of"

text \<open>A canonical pool as the object the validator is handed: the same fields, the two
  numbers as JavaScript values.\<close>

definition as_value :: "pool \<Rightarrow> pool_value" where
  "as_value p =
     \<lparr>poolId = poolId p, name = name p, baseAsset = baseAsset p, quoteAsset = quoteAsset p,
      pairType = pairType p, liquidityUsd = JNum (liquidityUsd p),
      volumeUsd24h = JNum (volumeUsd24h p), feeTier = feeTier p, chain = chain p,
      source = source p, sourceRank = sourceRank p, score = score p, apr = apr p,
      poolUrl = poolUrl p\<rparr>"

text \<open>\<open>s || ''\<close> and the truthiness of an optional string.\<close>

definition or_empty :: "string option \<Rightarrow> string" where
  "or_empty s = (case s of None \<Rightarrow> [] | Some t \<Rightarrow> t)"

definition present :: "string option \<Rightarrow> bool" where
  "present s = (or_empty s \<noteq> [])"

text \<open>\<open>s.split('_').pop()\<close>: what follows the last underscore.\<close>

definition last_segment :: "string \<Rightarrow> string" where
  "last_segment s = rev (takeWhile (\<lambda>c. c \<noteq> CHR ''_'') (rev s))"

subsection \<open>Normalization\<close>

definition extractGeckoTerminalFee :: "gecko_attrs \<Rightarrow> rat option" where
  "extractGeckoTerminalFee attrs =
     (if truthy (swap_fee attrs) then parseFeeToPercent (swap_fee attrs)
      else if truthy (fee attrs) then parseFeeToPercent (fee attrs)
      else if truthy (pool_fee attrs) then parseFeeToPercent (pool_fee attrs)
      else let nm = or_empty (attr_name attrs)
           in case match_percent nm of
                Some feeMatch \<Rightarrow> parseFloat feeMatch
              | None \<Rightarrow>
                  (case match_tier nm of
                     Some tierMatch \<Rightarrow> parseFloat tierMatch
                   | None \<Rightarrow> None))"

text \<open>The source of \<open>Math.random().toString(36).substr(2, 9)\<close>: the \<open>k\<close>-th draw of a
  run. A normalizer takes the number of draws made so far and returns the number after
  it.\<close>

type_synonym rng = "nat \<Rightarrow> string"

definition normalizeGeckoTerminalPool :: "rng \<Rightarrow> nat \<Rightarrow> raw_pool \<Rightarrow> pool option \<times> nat" where
  "normalizeGeckoTerminalPool rnd k p =
     (let attrs = (case attributes p of None \<Rightarrow> no_attrs | Some a \<Rightarrow> a);
          baseSymbol = or_empty (base_token_symbol attrs);
          quoteSymbol = or_empty (quote_token_symbol attrs);
          baseAssetClass0 = resolveAssetClass (Some baseSymbol);
          quoteAssetClass0 = resolveAssetClass (Some quoteSymbol);
          isWrappedPair = (baseAssetClass0 = quoteAssetClass0 \<and>
                           (baseAssetClass0 = Some BTC \<or> baseAssetClass0 = Some ETH) \<and>
                           areDifferentVariants baseSymbol quoteSymbol baseAssetClass0);
          swap = (\<not> isWrappedPair \<and>
                  (quoteAssetClass0 = Some BTC \<or>
                   (quoteAssetClass0 = Some ETH \<and> baseAssetClass0 = Some STABLE)));
          baseAssetClass = (if swap then quoteAssetClass0 else baseAssetClass0);
          quoteAssetClass = (if swap then baseAssetClass0 else quoteAssetClass0)
      in case determinePairType baseAssetClass quoteAssetClass of
           None \<Rightarrow> (None, k)
         | Some pt \<Rightarrow>
             if \<not> isWrappedPair \<and> baseAssetClass = quoteAssetClass then (None, k)
             else
               (let chainName =
                      (if \<not> present (tag_chain p) \<or> tag_chain p = Some ''unknown'' then
                         (let networkId =
                                (if present (network_identifier attrs)
                                 then or_empty (network_identifier attrs)
                                 else or_empty (network_id attrs));
                              mapped = lookup_or_key CHAIN_ID_MAP networkId
                          in if mapped = [] then ''unknown'' else mapped)
                       else or_empty (tag_chain p));
                    liquidityUsd = parseFloat_or_0 (reserve_in_usd attrs);
                    volumeUsd24h = parseFloat_or_0 (volume_usd_h24 attrs);
                    feeTier = extractGeckoTerminalFee attrs
                in (Some \<lparr>poolId = (if present (raw_id p) then raw_id p
                                     else Some (''gt-'' @ rnd k)),
                          name = (if present (attr_name attrs) then or_empty (attr_name attrs)
                                  else baseSymbol @ ''/'' @ quoteSymbol),
                          baseAsset = baseAssetClass,
                          quoteAsset = quoteAssetClass,
                          pairType = Some pt,
                          liquidityUsd = liquidityUsd,
                          volumeUsd24h = volumeUsd24h,
                          feeTier = feeTier,
                          chain = chainName,
                          source = tag_source p,
                          sourceRank = tag_sourceRank p,
                          score = None,
                          apr = None,
                          poolUrl =
                            (if present (pool_url attrs) then pool_url attrs
                             else if present (raw_id p) then
                               Some (''https://www.geckoterminal.com/''
                                     @ lookup_or_key CHAIN_TO_GECKO_ID chainName
                                     @ ''/pools/'' @ last_segment (or_empty (raw_id p)))
                             else None)\<rparr>,
                    if present (raw_id p) then k else Suc k)))"

text \<open>The loop over \<open>pool.labels\<close>: the first label that matches sets the fee and
  breaks.\<close>

fun labels_fee :: "string list \<Rightarrow> rat option" where
  "labels_fee [] = None"
| "labels_fee (label # rest) =
     (case match_percent label of
        Some feeMatch \<Rightarrow> parseFloat feeMatch
      | None \<Rightarrow> labels_fee rest)"

text \<open>\<open>!feeTier\<close> on a fee that is a number or \<open>null\<close>.\<close>

definition no_fee :: "rat option \<Rightarrow> bool" where
  "no_fee f = (f = None \<or> f = Some 0)"

definition normalizeDexScreenerPool :: "raw_pool \<Rightarrow> pool option" where
  "normalizeDexScreenerPool p =
     (let baseSymbol = or_empty (baseToken_symbol p);
          quoteSymbol = or_empty (quoteToken_symbol p);
          baseAssetClass0 = resolveAssetClass (Some baseSymbol);
          quoteAssetClass0 = resolveAssetClass (Some quoteSymbol);
          isWrappedPair = (baseAssetClass0 = quoteAssetClass0 \<and>
                           (baseAssetClass0 = Some BTC \<or> baseAssetClass0 = Some ETH) \<and>
                           areDifferentVariants baseSymbol quoteSymbol baseAssetClass0);
          swap = (\<not> isWrappedPair \<and>
                  (quoteAssetClass0 = Some BTC \<or>
                   (quoteAssetClass0 = Some ETH \<and> baseAssetClass0 = Some STABLE)));
          baseAssetClass = (if swap then quoteAssetClass0 else baseAssetClass0);
          quoteAssetClass = (if swap then baseAssetClass0 else quoteAssetClass0)
      in case determinePairType baseAssetClass quoteAssetClass of
           None \<Rightarrow> None
         | Some pt \<Rightarrow>
             if \<not> isWrappedPair \<and> baseAssetClass = quoteAssetClass then None
             else
               (let chainName =
                      (case map_of CHAIN_ID_MAP (toLowerCase (or_empty (chainId p))) of
                         Some c \<Rightarrow> c
                       | None \<Rightarrow> if present (chainId p) then or_empty (chainId p)
                                 else ''unknown'');
                    feeTier1 = (case labels p of None \<Rightarrow> None | Some ls \<Rightarrow> labels_fee ls);
                    feeTier2 = (if no_fee feeTier1 \<and> truthy (raw_feeTier p)
                                then parseFeeToPercent (raw_feeTier p) else feeTier1);
                    feeTier3 =
                      (if no_fee feeTier2 then
                         (let pairName' = (if present (pairName p) then or_empty (pairName p)
                                           else baseSymbol @ ''/'' @ quoteSymbol)
                          in case match_percent pairName' of
                               Some feeMatch \<Rightarrow> parseFloat feeMatch
                             | None \<Rightarrow> feeTier2)
                       else feeTier2)
                in Some \<lparr>poolId = pairAddress p,
                         name = baseSymbol @ ''/'' @ quoteSymbol,
                         baseAsset = baseAssetClass,
                         quoteAsset = quoteAssetClass,
                         pairType = Some pt,
                         liquidityUsd = parseFloat_or_0 (liquidity_usd p),
                         volumeUsd24h = parseFloat_or_0 (volume_h24 p),
                         feeTier = feeTier3,
                         chain = chainName,
                         source = tag_source p,
                         sourceRank = tag_sourceRank p,
                         score = None,
                         apr = None,
                         poolUrl = (if present (url p) then url p else None)\<rparr>))"

text \<open>One round of the loop of \<open>normalizeAllPools\<close>: the dispatch on \<open>_source\<close>.\<close>

definition normalizeOne :: "rng \<Rightarrow> nat \<Rightarrow> raw_pool \<Rightarrow> pool option \<times> nat" where
  "normalizeOne rnd k p =
     (if tag_source p = Some ''GeckoTerminal'' then normalizeGeckoTerminalPool rnd k p
      else if tag_source p = Some ''DexScreener'' then (normalizeDexScreenerPool p, k)
      else (None, k))"

text \<open>The loop of \<open>normalizeAllPools\<close>, with its state: the draws made, the set
  \<open>seenIds\<close> and the array \<open>normalizedPools\<close>.\<close>

fun normalizeLoop ::
  "rng \<Rightarrow> raw_pool list \<Rightarrow> nat \<Rightarrow> string option set \<Rightarrow> pool list \<Rightarrow> pool list" where
  "normalizeLoop rnd [] k seenIds normalizedPools = normalizedPools"
| "normalizeLoop rnd (p # rest) k seenIds normalizedPools =
     (case normalizeOne rnd k p of
        (None, k') \<Rightarrow> normalizeLoop rnd rest k' seenIds normalizedPools
      | (Some normalized, k') \<Rightarrow>
          if poolId normalized \<notin> seenIds
          then normalizeLoop rnd rest k' (insert (poolId normalized) seenIds)
                 (normalizedPools @ [normalized])
          else normalizeLoop rnd rest k' seenIds normalizedPools)"

definition normalizeAllPools :: "rng \<Rightarrow> raw_pool list \<Rightarrow> pool list" where
  "normalizeAllPools rnd rawPools =
     (if rawPools = [] then [] else normalizeLoop rnd rawPools 0 {} [])"

subsection \<open>Validation and scoring\<close>

text \<open>\<open>typeof v === 'number'\<close>.\<close>

fun typeof_number :: "jsval \<Rightarrow> bool" where
  "typeof_number (JNum x) = True"
| "typeof_number _ = False"

text \<open>\<open>validatePool\<close>, on a pool object whose \<open>liquidityUsd\<close> and \<open>volumeUsd24h\<close> may hold
  any value. The test \<open>typeof pool.liquidityUsd !== 'number' || typeof pool.volumeUsd24h
  !== 'number'\<close> is the distinction of cases: a value other than a number in either
  field is rejected there, and the three comparisons below it read the numbers.\<close>

definition validatePool :: "pool_value \<Rightarrow> bool" where
  "validatePool p =
     (if \<not> present (poolId p) \<or> name p = [] \<or> baseAsset p = None \<or> pairType p = None
      then False
      else case liquidityUsd p of
             JNum liquidity \<Rightarrow>
               (case volumeUsd24h p of
                  JNum volume \<Rightarrow>
                    if liquidity < MIN_LIQUIDITY then False
                    else if volume < MIN_VOLUME_24H then False
                    else if liquidity \<le> 0 then False
                    else True
                | _ \<Rightarrow> False)
           | _ \<Rightarrow> False)"

text \<open>\<open>filterPools\<close>: \<open>pools.filter(pool => validatePool(pool))\<close> on the normalized pools.\<close>

definition filterPools :: "pool list \<Rightarrow> pool list" where
  "filterPools pools = filter (\<lambda>p. validatePool (as_value p)) pools"

definition calculateTurnoverScore :: "pool \<Rightarrow> rat" where
  "calculateTurnoverScore p =
     (if liquidityUsd p \<le> 0 then 0 else volumeUsd24h p / liquidityUsd p)"

text \<open>\<open>Array.prototype.sort\<close> with a comparator: a stable sort, here by insertion. The
  comparator's result is negative when its first argument goes first.\<close>

fun insort_cmp :: "('a \<Rightarrow> 'a \<Rightarrow> rat) \<Rightarrow> 'a \<Rightarrow> 'a list \<Rightarrow> 'a list" where
  "insort_cmp cmp x [] = [x]"
| "insort_cmp cmp x (y # ys) =
     (if cmp x y \<le> 0 then x # y # ys else y # insort_cmp cmp x ys)"

definition array_sort :: "('a \<Rightarrow> 'a \<Rightarrow> rat) \<Rightarrow> 'a list \<Rightarrow> 'a list" where
  "array_sort cmp xs = foldr (insort_cmp cmp) xs []"

text \<open>A score in arithmetic: \<open>null\<close> converts to \<open>0\<close>.\<close>

definition num_of :: "rat option \<Rightarrow> rat" where
  "num_of v = (case v of None \<Rightarrow> 0 | Some x \<Rightarrow> x)"

definition rank_cmp :: "pool \<Rightarrow> pool \<Rightarrow> rat" where
  "rank_cmp a b =
     (if score b \<noteq> score a then num_of (score b) - num_of (score a)
      else liquidityUsd b - liquidityUsd a)"

text \<open>\<open>pool.feeTier || CONFIG.DEFAULT_FEE_PERCENT || 0.3\<close>.\<close>

definition effectiveFee :: "pool \<Rightarrow> rat" where
  "effectiveFee p =
     (if \<not> no_fee (feeTier p) then num_of (feeTier p)
      else if DEFAULT_FEE_PERCENT \<noteq> 0 then DEFAULT_FEE_PERCENT
      else 3 / 10)"

definition scorePool :: "pool \<Rightarrow> pool" where
  "scorePool p =
     (let score' = calculateTurnoverScore p;
          apr' = calculateApr (volumeUsd24h p) (liquidityUsd p) (effectiveFee p)
      in p\<lparr>score := Some score', apr := Some apr'\<rparr>)"

definition scoreAndRankPools :: "pool list \<Rightarrow> pool list" where
  "scoreAndRankPools pools = array_sort rank_cmp (map scorePool pools)"

subsection \<open>Categorization and the pipeline\<close>

text \<open>The object \<open>categories\<close>, with its keys in the order written.\<close>

type_synonym categories = "(pair_type \<times> pool list) list"

definition empty_categories :: categories where
  "empty_categories = [(BtcStable, []), (EthStable, []), (BtcEth, []), (Wrapped, [])]"

definition push_category :: "pool \<Rightarrow> categories \<Rightarrow> categories" where
  "push_category p cats =
     (case pairType p of
        None \<Rightarrow> cats
      | Some pt \<Rightarrow> map (\<lambda>(key, ps). if key = pt then (key, ps @ [p]) else (key, ps)) cats)"

definition categorizePools :: "pool list \<Rightarrow> categories" where
  "categorizePools pools =
     map (\<lambda>(key, ps). (key, scoreAndRankPools ps))
         (foldl (\<lambda>cats p. push_category p cats) empty_categories pools)"

text \<open>The three stages as \<open>mainApp\<close> runs them on the fetched records.\<close>

definition pipeline :: "rng \<Rightarrow> raw_pool list \<Rightarrow> categories" where
  "pipeline rnd allRawPools =
     (let normalizedPools = normalizeAllPools rnd allRawPools;
          validPools = filterPools normalizedPools
      in categorizePools validPools)"

subsection \<open>Specification-level definitions and sample inputs\<close>

text \<open>The fee heuristic in the specification's words: above 100 basis points, below 1 a
  fractional rate, in between a percentage already.\<close>

definition spec_fee_percent :: "rat \<Rightarrow> rat" where
  "spec_fee_percent x = (if x > 100 then x / 10000 else if x < 1 then x * 100 else x)"

text \<open>The yield formula in the specification's words, with the default fee exactly when
  \<open>feeTier\<close> is \<open>null\<close>; and the fee the scorer uses, which also takes the default for a
  fee of zero.\<close>

definition spec_apr :: "pool \<Rightarrow> rat" where
  "spec_apr p =
     ((volumeUsd24h p * ((case feeTier p of None \<Rightarrow> DEFAULT_FEE_PERCENT | Some f \<Rightarrow> f) / 100))
        * 365 / liquidityUsd p) * 100"

definition fee_or_default :: "pool \<Rightarrow> rat" where
  "fee_or_default p =
     (case feeTier p of
        None \<Rightarrow> DEFAULT_FEE_PERCENT
      | Some f \<Rightarrow> if f = 0 then DEFAULT_FEE_PERCENT else f)"

text \<open>Asset class resolution in the specification's words: membership of the lower-cased
  symbol in the alias list.\<close>

definition resolveAssetClass_by_membership :: "string option \<Rightarrow> asset_class option" where
  "resolveAssetClass_by_membership symbol =
     (case symbol of
        None \<Rightarrow> None
      | Some s \<Rightarrow> map_option fst (find (\<lambda>(assetClass, alts). toLowerCase s \<in> set alts) ASSET_CLASSES))"

text \<open>The local constants \<open>baseSymbol\<close>, \<open>quoteSymbol\<close> of \<open>normalizeGeckoTerminalPool\<close>
  and \<open>isWrappedPair\<close> of both normalizers.\<close>

definition gecko_base_symbol :: "raw_pool \<Rightarrow> string" where
  "gecko_base_symbol p =
     or_empty (base_token_symbol (case attributes p of None \<Rightarrow> no_attrs | Some a \<Rightarrow> a))"

definition gecko_quote_symbol :: "raw_pool \<Rightarrow> string" where
  "gecko_quote_symbol p =
     or_empty (quote_token_symbol (case attributes p of None \<Rightarrow> no_attrs | Some a \<Rightarrow> a))"

definition isWrappedPair :: "string \<Rightarrow> string \<Rightarrow> bool" where
  "isWrappedPair baseSymbol quoteSymbol =
     (resolveAssetClass (Some baseSymbol) = resolveAssetClass (Some quoteSymbol) \<and>
      (resolveAssetClass (Some baseSymbol) = Some BTC \<or>
       resolveAssetClass (Some baseSymbol) = Some ETH) \<and>
      areDifferentVariants baseSymbol quoteSymbol (resolveAssetClass (Some baseSymbol)))"

text \<open>The records that normalize, in input order, before deduplication; and what keeping
  the first record of every id leaves of a list.\<close>

fun normalizeEach :: "rng \<Rightarrow> nat \<Rightarrow> raw_pool list \<Rightarrow> pool list" where
  "normalizeEach rnd k [] = []"
| "normalizeEach rnd k (p # rest) =
     (case normalizeOne rnd k p of
        (None, k') \<Rightarrow> normalizeEach rnd k' rest
      | (Some normalized, k') \<Rightarrow> normalized # normalizeEach rnd k' rest)"

fun first_seen :: "string option set \<Rightarrow> pool list \<Rightarrow> pool list" where
  "first_seen seen [] = []"
| "first_seen seen (p # ps) =
     (if poolId p \<in> seen then first_seen seen ps
      else p # first_seen (insert (poolId p) seen) ps)"

text \<open>A provenance tag that \<open>normalizeAllPools\<close> dispatches on.\<close>

definition known_source :: "raw_pool \<Rightarrow> bool" where
  "known_source p = (tag_source p = Some ''GeckoTerminal'' \<or> tag_source p = Some ''DexScreener'')"

text \<open>Sample inputs: a canonical pool with liquidity 1,000,000 and 24h volume 250,000, a
  list to rank, raw records of either source, and two runs' draws.\<close>

definition sample_pool :: pool where
  "sample_pool = \<lparr>poolId = Some ''eth_0xabc'', name = ''WBTC/USDC'', baseAsset = Some BTC,
     quoteAsset = Some STABLE, pairType = Some BtcStable, liquidityUsd = 1000000,
     volumeUsd24h = 250000, feeTier = None, chain = ''ethereum'',
     source = Some ''GeckoTerminal'', sourceRank = JNum 1, score = None, apr = None,
     poolUrl = None\<rparr>"

definition ranking_input :: "pool list" where
  "ranking_input =
     [sample_pool\<lparr>name := ''low'', liquidityUsd := 500000, volumeUsd24h := 50000\<rparr>,
      sample_pool,
      sample_pool\<lparr>name := ''big'', liquidityUsd := 2000000, volumeUsd24h := 500000\<rparr>,
      sample_pool\<lparr>name := ''second''\<rparr>]"

definition blank_raw :: raw_pool where
  "blank_raw = \<lparr>raw_id = None, attributes = None, pairAddress = None, baseToken_symbol = None,
     quoteToken_symbol = None, chainId = None, labels = None, raw_feeTier = JUndefined,
     pairName = None, liquidity_usd = JUndefined, volume_h24 = JUndefined, url = None,
     tag_source = None, tag_sourceRank = JUndefined, tag_chain = None\<rparr>"

definition gecko_wbtc_usdc :: raw_pool where
  "gecko_wbtc_usdc = blank_raw
     \<lparr>attributes := Some (no_attrs\<lparr>base_token_symbol := Some ''WBTC'',
                                    quote_token_symbol := Some ''USDC'',
                                    reserve_in_usd := JStr ''500000'',
                                    volume_usd_h24 := JStr ''50000''\<rparr>),
      tag_source := Some ''GeckoTerminal'', tag_sourceRank := JNum 1,
      tag_chain := Some ''ethereum''\<rparr>"

definition gecko_wbtc_tbtc :: raw_pool where
  "gecko_wbtc_tbtc = blank_raw
     \<lparr>raw_id := Some ''eth_0xdef'',
      attributes := Some (no_attrs\<lparr>base_token_symbol := Some ''wbtc'',
                                    quote_token_symbol := Some ''tbtc'',
                                    reserve_in_usd := JStr ''750000.50'',
                                    volume_usd_h24 := JStr ''80000''\<rparr>),
      tag_source := Some ''GeckoTerminal'', tag_sourceRank := JNum 1,
      tag_chain := Some ''ethereum''\<rparr>"

definition dex_weth_usdc :: raw_pool where
  "dex_weth_usdc = blank_raw
     \<lparr>pairAddress := Some ''0xabc'', baseToken_symbol := Some ''USDC'',
      quoteToken_symbol := Some ''WETH'', chainId := Some ''base'',
      liquidity_usd := JNum 2000000, volume_h24 := JNum 100000,
      tag_source := Some ''DexScreener'', tag_sourceRank := JNum 2\<rparr>"

definition dex_same_id :: raw_pool where
  "dex_same_id = blank_raw
     \<lparr>pairAddress := Some ''eth_0xdef'', baseToken_symbol := Some ''WETH'',
      quoteToken_symbol := Some ''USDT'', chainId := Some ''ethereum'',
      liquidity_usd := JNum 300000, volume_h24 := JNum 20000,
      tag_source := Some ''DexScreener'', tag_sourceRank := JNum 2\<rparr>"

definition other_source :: raw_pool where
  "other_source = dex_weth_usdc\<lparr>pairAddress := Some ''0x999'', tag_source := Some ''Uniswap''\<rparr>"

definition dex_no_liquidity :: raw_pool where
  "dex_no_liquidity = blank_raw
     \<lparr>pairAddress := Some ''0x777'', baseToken_symbol := Some ''WETH'',
      quoteToken_symbol := Some ''USDC'', chainId := Some ''ethereum'',
      volume_h24 := JNum 90000,
      tag_source := Some ''DexScreener'', tag_sourceRank := JNum 2\<rparr>"

definition gecko_usdc_wbtc :: raw_pool where
  "gecko_usdc_wbtc = blank_raw
     \<lparr>raw_id := Some ''base_0x123'',
      attributes := Some (no_attrs\<lparr>base_token_symbol := Some ''usdc'',
                                    quote_token_symbol := Some ''wbtc'',
                                    attr_name := Some ''USDC / WBTC 0.05%'',
                                    reserve_in_usd := JStr ''1200000'',
                                    volume_usd_h24 := JStr ''300000''\<rparr>),
      tag_source := Some ''GeckoTerminal'', tag_sourceRank := JNum 1,
      tag_chain := Some ''base''\<rparr>"

definition draws_a :: rng where
  "draws_a k = ''k3x9f0q1z''"

definition draws_b :: rng where
  "draws_b k = ''m81vd2c7p''"

section \<open>Verified properties\<close>

subsection \<open>Asset class resolution\<close>

lemma str_includes_sublist: "str_includes s t \<longleftrightarrow> sublist t s"
  by (induction s) (simp_all add: sublist_Cons_right)

text \<open>No alias is empty, so the empty symbol contains none.\<close>

lemma no_alias_in_empty:
  "find (\<lambda>(assetClass, alts). \<exists>a \<in> set alts. sublist a []) ASSET_CLASSES = None"
  by (simp add: ASSET_CLASSES_def)

lemma resolveAssetClass_substring:
  "resolveAssetClass (Some s) =
     map_option fst (find (\<lambda>(assetClass, alts). \<exists>a \<in> set alts. sublist a (toLowerCase s))
                          ASSET_CLASSES)"
proof (cases "s = []")
  case True
  then show ?thesis
    using no_alias_in_empty by (simp add: resolveAssetClass_def toLowerCase_def)
next
  case False
  have "(\<lambda>(assetClass :: asset_class, alts). list_ex (\<lambda>alt. str_includes (toLowerCase s) alt) alts)
        = (\<lambda>(assetClass, alts). \<exists>a \<in> set alts. sublist a (toLowerCase s))"
    by (simp add: fun_eq_iff list_ex_iff str_includes_sublist)
  with False show ?thesis
    by (simp add: resolveAssetClass_def Let_def)
qed

text \<open>On the aliases themselves the substring test and the membership test agree.\<close>

lemma aliases_resolve_to_their_class:
  "list_all (\<lambda>(assetClass, alts).
      list_all (\<lambda>a. map_option fst (find (\<lambda>(c, alts'). list_ex (\<lambda>alt. str_includes a alt) alts') ASSET_CLASSES)
                      = map_option fst (find (\<lambda>(c, alts'). a \<in> set alts') ASSET_CLASSES)) alts)
     ASSET_CLASSES"
  by code_simp

text \<open>
  C1, as stated: \<open>resolveAssetClass\<close> returns the first class whose alias list the
  lower-cased symbol is a member of, and \<open>null\<close> when it is a member of none. The bridged
  stablecoin ticker \<open>USDC.e\<close> is in no list, and resolves to \<open>STABLE\<close>.
\<close>

theorem resolveAssetClass_membership_counterexample:
  "resolveAssetClass (Some ''USDC.e'') = Some STABLE \<and>
   resolveAssetClass_by_membership (Some ''USDC.e'') = None"
  by code_simp

text \<open>
  C1, amended: \<open>resolveAssetClass\<close> lower-cases the symbol and returns the first class, in
  the order \<open>BTC\<close>, \<open>ETH\<close>, \<open>STABLE\<close>, one of whose aliases occurs in the symbol as a
  contiguous substring; \<open>null\<close> when no alias occurs in it, and for the empty or absent
  symbol. When the lower-cased symbol is itself an alias, that is the first class whose
  list has it as a member.
\<close>

theorem resolveAssetClass_first_substring_class:
  "resolveAssetClass (Some s) =
     map_option fst (find (\<lambda>(assetClass, alts). \<exists>a \<in> set alts. sublist a (toLowerCase s))
                          ASSET_CLASSES) \<and>
   map fst ASSET_CLASSES = [BTC, ETH, STABLE] \<and>
   resolveAssetClass None = None \<and> resolveAssetClass (Some []) = None \<and>
   (toLowerCase s \<in> set (concat (map snd ASSET_CLASSES))
      \<longrightarrow> resolveAssetClass (Some s) = resolveAssetClass_by_membership (Some s))"
proof (intro conjI impI)
  show "resolveAssetClass (Some s) =
     map_option fst (find (\<lambda>(assetClass, alts). \<exists>a \<in> set alts. sublist a (toLowerCase s))
                          ASSET_CLASSES)"
    by (rule resolveAssetClass_substring)
  show "map fst ASSET_CLASSES = [BTC, ETH, STABLE]"
    by (simp add: ASSET_CLASSES_def)
  show "resolveAssetClass None = None" "resolveAssetClass (Some []) = None"
    by (simp_all add: resolveAssetClass_def)
next
  assume al: "toLowerCase s \<in> set (concat (map snd ASSET_CLASSES))"
  have "[] \<notin> set (concat (map snd ASSET_CLASSES))"
    by (simp add: ASSET_CLASSES_def)
  with al have "s \<noteq> []"
    by (auto simp add: toLowerCase_def)
  then have code: "resolveAssetClass (Some s) =
      map_option fst (find (\<lambda>(c, alts'). list_ex (\<lambda>alt. str_includes (toLowerCase s) alt) alts')
                           ASSET_CLASSES)"
    by (simp add: resolveAssetClass_def Let_def)
  from al obtain assetClass alts where "(assetClass, alts) \<in> set ASSET_CLASSES"
    and "toLowerCase s \<in> set alts"
    by auto
  with aliases_resolve_to_their_class
  have "map_option fst (find (\<lambda>(c, alts'). list_ex (\<lambda>alt. str_includes (toLowerCase s) alt) alts')
                             ASSET_CLASSES)
        = map_option fst (find (\<lambda>(c, alts'). toLowerCase s \<in> set alts') ASSET_CLASSES)"
    by (auto simp add: list_all_iff)
  with code show "resolveAssetClass (Some s) = resolveAssetClass_by_membership (Some s)"
    by (simp add: resolveAssetClass_by_membership_def)
qed

theorem resolveAssetClass_first_substring_class_witness:
  "resolveAssetClass (Some ''cbBTC'') = Some BTC \<and> resolveAssetClass (Some ''wstETH'') = Some ETH"
proof -
  have a1: "toLowerCase ''cbBTC'' \<in> set (concat (map snd ASSET_CLASSES))"
    and a2: "toLowerCase ''wstETH'' \<in> set (concat (map snd ASSET_CLASSES))"
    by code_simp+
  have "resolveAssetClass (Some ''cbBTC'') = resolveAssetClass_by_membership (Some ''cbBTC'')"
    using resolveAssetClass_first_substring_class [of "''cbBTC''"] a1 by blast
  moreover have "resolveAssetClass (Some ''wstETH'') = resolveAssetClass_by_membership (Some ''wstETH'')"
    using resolveAssetClass_first_substring_class [of "''wstETH''"] a2 by blast
  moreover have "resolveAssetClass_by_membership (Some ''cbBTC'') = Some BTC"
    and "resolveAssetClass_by_membership (Some ''wstETH'') = Some ETH"
    by code_simp+
  ultimately show ?thesis by simp
qed

subsection \<open>Fee parsing\<close>

lemma fee_of_pct_string: "parseFeeToPercent (JStr ''0.3%'') = Some (3 / 10)"
  by code_simp

text \<open>
  C2. \<open>parseFeeToPercent\<close> normalizes every fee input to a percentage: a number, or a
  string without \<open>%\<close> that parses to a number, goes through the heuristic (above 100
  divided by 10000, below 1 multiplied by 100, from 1 to 100 unchanged); a string with a
  \<open>%\<close> is returned as the number parsed from it; 3000 gives 0.30, \<open>"0.3%"\<close> gives 0.3
  and 0.003 gives 0.3; a string that does not parse, \<open>null\<close>, \<open>undefined\<close> and values of
  any other type give \<open>null\<close>.
\<close>

theorem parseFeeToPercent_normalizes:
  "parseFeeToPercent (JNum x) = Some (spec_fee_percent x) \<and>
   (parseFloat (trim (replace_first_pct s)) = Some y \<and> CHR ''%'' \<notin> set s
      \<longrightarrow> parseFeeToPercent (JStr s) = Some (spec_fee_percent y)) \<and>
   (parseFloat (trim (replace_first_pct s)) = Some y \<and> CHR ''%'' \<in> set s
      \<longrightarrow> parseFeeToPercent (JStr s) = Some y) \<and>
   (parseFloat (trim (replace_first_pct s)) = None \<longrightarrow> parseFeeToPercent (JStr s) = None) \<and>
   parseFeeToPercent JNull = None \<and> parseFeeToPercent JUndefined = None \<and>
   parseFeeToPercent (JBool b) = None \<and> parseFeeToPercent JObj = None \<and>
   parseFeeToPercent (JNum 3000) = Some (3 / 10) \<and>
   parseFeeToPercent (JStr ''0.3%'') = Some (3 / 10) \<and>
   parseFeeToPercent (JNum (3 / 1000)) = Some (3 / 10)"
proof -
  have num: "parseFeeToPercent (JNum x) = Some (spec_fee_percent x)"
    by (simp add: spec_fee_percent_def)
  have plain: "parseFloat (trim (replace_first_pct s)) = Some y \<and> CHR ''%'' \<notin> set s
      \<longrightarrow> parseFeeToPercent (JStr s) = Some (spec_fee_percent y)"
    by (simp add: spec_fee_percent_def)
  have marked: "parseFloat (trim (replace_first_pct s)) = Some y \<and> CHR ''%'' \<in> set s
      \<longrightarrow> parseFeeToPercent (JStr s) = Some y"
    by simp
  have unparsable: "parseFloat (trim (replace_first_pct s)) = None
      \<longrightarrow> parseFeeToPercent (JStr s) = None"
    by simp
  have others: "parseFeeToPercent JNull = None \<and> parseFeeToPercent JUndefined = None \<and>
      parseFeeToPercent (JBool b) = None \<and> parseFeeToPercent JObj = None"
    by simp
  have examples: "parseFeeToPercent (JNum 3000) = Some (3 / 10) \<and>
      parseFeeToPercent (JNum (3 / 1000)) = Some (3 / 10)"
    by simp
  from num plain marked unparsable others examples fee_of_pct_string show ?thesis
    by blast
qed

theorem parseFeeToPercent_normalizes_witness:
  "parseFeeToPercent (JStr ''3000'') = Some (3 / 10) \<and>
   parseFeeToPercent (JStr '' 0.05 %'') = Some (1 / 20) \<and>
   parseFeeToPercent (JStr ''n/a'') = None"
proof -
  have h1: "parseFloat (trim (replace_first_pct ''3000'')) = Some 3000 \<and>
            CHR ''%'' \<notin> set ''3000''"
    by code_simp
  have h2: "parseFloat (trim (replace_first_pct '' 0.05 %'')) = Some (1 / 20) \<and>
            CHR ''%'' \<in> set '' 0.05 %''"
    by code_simp
  have h3: "parseFloat (trim (replace_first_pct ''n/a'')) = None"
    by code_simp
  have "parseFeeToPercent (JStr ''3000'') = Some (spec_fee_percent 3000)"
    using parseFeeToPercent_normalizes [of 0 "''3000''" 3000 True] h1 by blast
  moreover have "parseFeeToPercent (JStr '' 0.05 %'') = Some (1 / 20)"
    using parseFeeToPercent_normalizes [of 0 "'' 0.05 %''" "1 / 20" True] h2 by blast
  moreover have "parseFeeToPercent (JStr ''n/a'') = None"
    using parseFeeToPercent_normalizes [of 0 "''n/a''" 0 True] h3 by blast
  ultimately show ?thesis
    by (simp add: spec_fee_percent_def)
qed

subsection \<open>Wrapped pairs\<close>

lemma resolve_wbtc: "resolveAssetClass (Some ''wbtc'') = Some BTC"
  by code_simp

lemma resolve_tbtc: "resolveAssetClass (Some ''tbtc'') = Some BTC"
  by code_simp

lemma variants_wbtc_tbtc: "areDifferentVariants ''wbtc'' ''tbtc'' (Some BTC)"
  by code_simp

lemma wrapped_wbtc_tbtc: "isWrappedPair ''wbtc'' ''tbtc''"
  by (simp add: isWrappedPair_def resolve_wbtc resolve_tbtc variants_wbtc_tbtc)

lemma determinePairType_wrapped:
  "determinePairType b q = Some Wrapped \<Longrightarrow> b = q"
  by (simp add: determinePairType_def split: if_splits)

lemma wrapped_gecko:
  assumes "isWrappedPair (gecko_base_symbol p) (gecko_quote_symbol p)"
  shows "\<exists>q. fst (normalizeGeckoTerminalPool rnd k p) = Some q \<and> pairType q = Some Wrapped \<and>
             baseAsset q = resolveAssetClass (Some (gecko_base_symbol p)) \<and>
             quoteAsset q = resolveAssetClass (Some (gecko_quote_symbol p))"
proof -
  from assms have same: "resolveAssetClass (Some (gecko_quote_symbol p))
        = resolveAssetClass (Some (gecko_base_symbol p))"
    and var: "areDifferentVariants (gecko_base_symbol p) (gecko_quote_symbol p)
        (resolveAssetClass (Some (gecko_base_symbol p)))"
    and cls: "resolveAssetClass (Some (gecko_base_symbol p)) = Some BTC \<or>
        resolveAssetClass (Some (gecko_base_symbol p)) = Some ETH"
    by (auto simp add: isWrappedPair_def)
  from cls show ?thesis
  proof
    assume c: "resolveAssetClass (Some (gecko_base_symbol p)) = Some BTC"
    with same var show ?thesis
      unfolding gecko_base_symbol_def gecko_quote_symbol_def
      by (simp add: normalizeGeckoTerminalPool_def Let_def determinePairType_def)
  next
    assume c: "resolveAssetClass (Some (gecko_base_symbol p)) = Some ETH"
    with same var show ?thesis
      unfolding gecko_base_symbol_def gecko_quote_symbol_def
      by (simp add: normalizeGeckoTerminalPool_def Let_def determinePairType_def)
  qed
qed

lemma wrapped_dex:
  assumes "isWrappedPair (or_empty (baseToken_symbol p)) (or_empty (quoteToken_symbol p))"
  shows "\<exists>q. normalizeDexScreenerPool p = Some q \<and> pairType q = Some Wrapped \<and>
             baseAsset q = resolveAssetClass (Some (or_empty (baseToken_symbol p))) \<and>
             quoteAsset q = resolveAssetClass (Some (or_empty (quoteToken_symbol p)))"
proof -
  from assms have same: "resolveAssetClass (Some (or_empty (quoteToken_symbol p)))
        = resolveAssetClass (Some (or_empty (baseToken_symbol p)))"
    and var: "areDifferentVariants (or_empty (baseToken_symbol p)) (or_empty (quoteToken_symbol p))
        (resolveAssetClass (Some (or_empty (baseToken_symbol p))))"
    and cls: "resolveAssetClass (Some (or_empty (baseToken_symbol p))) = Some BTC \<or>
        resolveAssetClass (Some (or_empty (baseToken_symbol p))) = Some ETH"
    by (auto simp add: isWrappedPair_def)
  from cls show ?thesis
  proof
    assume c: "resolveAssetClass (Some (or_empty (baseToken_symbol p))) = Some BTC"
    with same var show ?thesis
      by (simp add: normalizeDexScreenerPool_def Let_def determinePairType_def)
  next
    assume c: "resolveAssetClass (Some (or_empty (baseToken_symbol p))) = Some ETH"
    with same var show ?thesis
      by (simp add: normalizeDexScreenerPool_def Let_def determinePairType_def)
  qed
qed

text \<open>The shape shared by both normalizers: classification, the same-class guard, then the
  record.\<close>

lemma guarded_wrapped_fst:
  assumes "fst (case determinePairType b q' of
                  None \<Rightarrow> (None, k)
                | Some pt \<Rightarrow> if \<not> w \<and> b = q' then (None, k) else (Some (f pt), g)) = Some r"
    and "\<And>pt. pairType (f pt) = Some pt"
    and "pairType r = Some Wrapped"
  shows w
  using assms by (auto split: option.splits if_splits dest: determinePairType_wrapped)

lemma guarded_wrapped:
  assumes "(case determinePairType b q' of
              None \<Rightarrow> None
            | Some pt \<Rightarrow> if \<not> w \<and> b = q' then None else Some (f pt)) = Some r"
    and "\<And>pt. pairType (f pt) = Some pt"
    and "pairType r = Some Wrapped"
  shows w
  using assms by (auto split: option.splits if_splits dest: determinePairType_wrapped)

lemma wrapped_only_gecko:
  assumes "fst (normalizeGeckoTerminalPool rnd k p) = Some q" and "pairType q = Some Wrapped"
  shows "isWrappedPair (gecko_base_symbol p) (gecko_quote_symbol p)"
  using assms(1)
  unfolding normalizeGeckoTerminalPool_def Let_def isWrappedPair_def gecko_base_symbol_def
    gecko_quote_symbol_def
  by (rule guarded_wrapped_fst) (simp_all add: assms(2))

lemma wrapped_only_dex:
  assumes "normalizeDexScreenerPool p = Some q" and "pairType q = Some Wrapped"
  shows "isWrappedPair (or_empty (baseToken_symbol p)) (or_empty (quoteToken_symbol p))"
  using assms(1)
  unfolding normalizeDexScreenerPool_def Let_def isWrappedPair_def
  by (rule guarded_wrapped) (simp_all add: assms(2))

text \<open>
  C6. A record with base symbol \<open>wbtc\<close> and quote symbol \<open>tbtc\<close> normalizes, in either
  normalizer, to a pool with \<open>pairType = 'wrapped'\<close>; the same-class guard does not
  reject it. In general a pair detected as wrapped is normalized to a wrapped pool whose
  base and quote classes are those of the record's base and quote symbols, unswapped,
  and a normalizer returns a wrapped pool for detected wrapped pairs only.
\<close>

theorem wrapped_pair_classified:
  "(gecko_base_symbol p = ''wbtc'' \<and> gecko_quote_symbol p = ''tbtc'' \<longrightarrow>
      (\<exists>q. fst (normalizeGeckoTerminalPool rnd k p) = Some q \<and> pairType q = Some Wrapped \<and>
            baseAsset q = Some BTC \<and> quoteAsset q = Some BTC)) \<and>
   (baseToken_symbol p = Some ''wbtc'' \<and> quoteToken_symbol p = Some ''tbtc'' \<longrightarrow>
      (\<exists>q. normalizeDexScreenerPool p = Some q \<and> pairType q = Some Wrapped \<and>
            baseAsset q = Some BTC \<and> quoteAsset q = Some BTC)) \<and>
   (isWrappedPair (gecko_base_symbol p) (gecko_quote_symbol p) \<longrightarrow>
      (\<exists>q. fst (normalizeGeckoTerminalPool rnd k p) = Some q \<and> pairType q = Some Wrapped \<and>
            baseAsset q = resolveAssetClass (Some (gecko_base_symbol p)) \<and>
            quoteAsset q = resolveAssetClass (Some (gecko_quote_symbol p)))) \<and>
   (isWrappedPair (or_empty (baseToken_symbol p)) (or_empty (quoteToken_symbol p)) \<longrightarrow>
      (\<exists>q. normalizeDexScreenerPool p = Some q \<and> pairType q = Some Wrapped \<and>
            baseAsset q = resolveAssetClass (Some (or_empty (baseToken_symbol p))) \<and>
            quoteAsset q = resolveAssetClass (Some (or_empty (quoteToken_symbol p))))) \<and>
   (\<forall>q. fst (normalizeGeckoTerminalPool rnd k p) = Some q \<and> pairType q = Some Wrapped \<longrightarrow>
        isWrappedPair (gecko_base_symbol p) (gecko_quote_symbol p)) \<and>
   (\<forall>q. normalizeDexScreenerPool p = Some q \<and> pairType q = Some Wrapped \<longrightarrow>
        isWrappedPair (or_empty (baseToken_symbol p)) (or_empty (quoteToken_symbol p)))"
proof (intro conjI impI allI)
  assume "gecko_base_symbol p = ''wbtc'' \<and> gecko_quote_symbol p = ''tbtc''"
  then show "\<exists>q. fst (normalizeGeckoTerminalPool rnd k p) = Some q \<and> pairType q = Some Wrapped \<and>
            baseAsset q = Some BTC \<and> quoteAsset q = Some BTC"
    using wrapped_gecko [of p rnd k] wrapped_wbtc_tbtc
    by (simp add: resolve_wbtc resolve_tbtc)
next
  assume "baseToken_symbol p = Some ''wbtc'' \<and> quoteToken_symbol p = Some ''tbtc''"
  then show "\<exists>q. normalizeDexScreenerPool p = Some q \<and> pairType q = Some Wrapped \<and>
            baseAsset q = Some BTC \<and> quoteAsset q = Some BTC"
    using wrapped_dex [of p] wrapped_wbtc_tbtc
    by (simp add: resolve_wbtc resolve_tbtc or_empty_def)
next
  assume "isWrappedPair (gecko_base_symbol p) (gecko_quote_symbol p)"
  then show "\<exists>q. fst (normalizeGeckoTerminalPool rnd k p) = Some q \<and> pairType q = Some Wrapped \<and>
            baseAsset q = resolveAssetClass (Some (gecko_base_symbol p)) \<and>
            quoteAsset q = resolveAssetClass (Some (gecko_quote_symbol p))"
    by (rule wrapped_gecko)
next
  assume "isWrappedPair (or_empty (baseToken_symbol p)) (or_empty (quoteToken_symbol p))"
  then show "\<exists>q. normalizeDexScreenerPool p = Some q \<and> pairType q = Some Wrapped \<and>
            baseAsset q = resolveAssetClass (Some (or_empty (baseToken_symbol p))) \<and>
            quoteAsset q = resolveAssetClass (Some (or_empty (quoteToken_symbol p)))"
    by (rule wrapped_dex)
next
  fix q assume "fst (normalizeGeckoTerminalPool rnd k p) = Some q \<and> pairType q = Some Wrapped"
  then show "isWrappedPair (gecko_base_symbol p) (gecko_quote_symbol p)"
    using wrapped_only_gecko [of rnd k p q] by simp
next
  fix q assume "normalizeDexScreenerPool p = Some q \<and> pairType q = Some Wrapped"
  then show "isWrappedPair (or_empty (baseToken_symbol p)) (or_empty (quoteToken_symbol p))"
    using wrapped_only_dex [of p q] by simp
qed

theorem wrapped_pair_classified_witness:
  "\<exists>q. fst (normalizeGeckoTerminalPool draws_a 0 gecko_wbtc_tbtc) = Some q \<and>
       pairType q = Some Wrapped \<and> baseAsset q = Some BTC \<and> quoteAsset q = Some BTC"
proof -
  have "gecko_base_symbol gecko_wbtc_tbtc = ''wbtc'' \<and> gecko_quote_symbol gecko_wbtc_tbtc = ''tbtc''"
    by code_simp
  then show ?thesis
    using wrapped_pair_classified [of gecko_wbtc_tbtc draws_a 0] by blast
qed

subsection \<open>Deduplication and provenance\<close>

lemma normalizeLoop_first_seen:
  "normalizeLoop rnd raws k seen acc = acc @ first_seen seen (normalizeEach rnd k raws)"
proof (induction raws arbitrary: k seen acc)
  case Nil
  then show ?case by simp
next
  case (Cons p rest)
  obtain r k' where one: "normalizeOne rnd k p = (r, k')"
    by (cases "normalizeOne rnd k p")
  show ?case
  proof (cases r)
    case None
    with one Cons show ?thesis by simp
  next
    case (Some n)
    with one Cons show ?thesis by simp
  qed
qed

lemma normalizeAllPools_first_seen:
  "normalizeAllPools rnd raws = first_seen {} (normalizeEach rnd 0 raws)"
  by (simp add: normalizeAllPools_def normalizeLoop_first_seen)

lemma first_seen_ids: "poolId ` set (first_seen seen ps) \<inter> seen = {}"
  by (induction ps arbitrary: seen) auto

lemma first_seen_idset: "poolId ` set (first_seen seen ps) = poolId ` set ps - seen"
  by (induction ps arbitrary: seen) auto

lemma first_seen_distinct: "distinct (map poolId (first_seen seen ps))"
proof (induction ps arbitrary: seen)
  case Nil
  then show ?case by simp
next
  case (Cons p ps)
  have "poolId p \<notin> poolId ` set (first_seen (insert (poolId p) seen) ps)"
    using first_seen_ids [of "insert (poolId p) seen" ps] by auto
  with Cons show ?case by simp
qed

lemma first_seen_subseq: "subseq (first_seen seen ps) ps"
  by (induction ps arbitrary: seen) auto

lemma first_seen_find:
  "find (\<lambda>q. poolId q = i) (first_seen seen ps)
     = (if i \<in> seen then None else find (\<lambda>q. poolId q = i) ps)"
proof (induction ps arbitrary: seen)
  case Nil
  then show ?case by simp
next
  case (Cons p ps)
  then show ?case by auto
qed

lemma count_by_key:
  "distinct (map f xs) \<Longrightarrow> length (filter (\<lambda>q. f q = i) xs) = (if i \<in> f ` set xs then 1 else 0)"
  by (induction xs) auto

text \<open>
  C7. The output of \<open>normalizeAllPools\<close> has pairwise distinct ids. It is a subsequence of
  the records that normalize; for every id, the output's record of that id is the first
  normalized record of that id; and every id that some normalized record has occurs in
  the output exactly once, whatever the sources of the records that share it.
\<close>

theorem normalizeAllPools_unique_ids:
  "distinct (map poolId (normalizeAllPools rnd raws)) \<and>
   subseq (normalizeAllPools rnd raws) (normalizeEach rnd 0 raws) \<and>
   (\<forall>i. find (\<lambda>q. poolId q = i) (normalizeAllPools rnd raws)
        = find (\<lambda>q. poolId q = i) (normalizeEach rnd 0 raws)) \<and>
   (\<forall>i. length (filter (\<lambda>q. poolId q = i) (normalizeAllPools rnd raws))
        = (if i \<in> poolId ` set (normalizeEach rnd 0 raws) then 1 else 0))"
proof (intro conjI allI)
  let ?out = "normalizeAllPools rnd raws" and ?ns = "normalizeEach rnd 0 raws"
  show d: "distinct (map poolId ?out)"
    by (simp add: normalizeAllPools_first_seen first_seen_distinct)
  show "subseq ?out ?ns"
    by (simp add: normalizeAllPools_first_seen first_seen_subseq)
  show f: "find (\<lambda>q. poolId q = i) ?out = find (\<lambda>q. poolId q = i) ?ns" for i
    by (simp add: normalizeAllPools_first_seen first_seen_find)
  show "length (filter (\<lambda>q. poolId q = i) ?out) = (if i \<in> poolId ` set ?ns then 1 else 0)" for i
    using d count_by_key [of poolId ?out i]
    by (simp add: normalizeAllPools_first_seen first_seen_idset)
qed

theorem normalizeAllPools_unique_ids_witness:
  "length (filter (\<lambda>q. poolId q = Some ''eth_0xdef'')
             (normalizeAllPools draws_a [gecko_wbtc_tbtc, dex_same_id, dex_weth_usdc])) = 1 \<and>
   map source (normalizeAllPools draws_a [gecko_wbtc_tbtc, dex_same_id, dex_weth_usdc])
     = [Some ''GeckoTerminal'', Some ''DexScreener''] \<and>
   map poolId (normalizeEach draws_a 0 [gecko_wbtc_tbtc, dex_same_id, dex_weth_usdc])
     = [Some ''eth_0xdef'', Some ''eth_0xdef'', Some ''0xabc'']"
proof -
  let ?raws = "[gecko_wbtc_tbtc, dex_same_id, dex_weth_usdc]"
  have ids: "map poolId (normalizeEach draws_a 0 ?raws)
     = [Some ''eth_0xdef'', Some ''eth_0xdef'', Some ''0xabc'']"
    by code_simp
  have "set (map poolId (normalizeEach draws_a 0 ?raws))
     = set [Some ''eth_0xdef'', Some ''eth_0xdef'', Some ''0xabc'']"
    by (simp only: ids)
  then have mem: "Some ''eth_0xdef'' \<in> poolId ` set (normalizeEach draws_a 0 ?raws)"
    by (simp only: set_map) simp
  have "length (filter (\<lambda>q. poolId q = Some ''eth_0xdef'') (normalizeAllPools draws_a ?raws))
     = (if Some ''eth_0xdef'' \<in> poolId ` set (normalizeEach draws_a 0 ?raws) then 1 else 0)"
    using normalizeAllPools_unique_ids [of draws_a ?raws] by blast
  with mem have one: "length (filter (\<lambda>q. poolId q = Some ''eth_0xdef'')
      (normalizeAllPools draws_a ?raws)) = 1"
    by (simp only: if_True)
  have src: "map source (normalizeAllPools draws_a ?raws)
     = [Some ''GeckoTerminal'', Some ''DexScreener'']"
    by code_simp
  from one src ids show ?thesis
    by (intro conjI)
qed

lemma normalizeOne_unknown: "\<not> known_source p \<Longrightarrow> normalizeOne rnd k p = (None, k)"
  by (simp add: normalizeOne_def known_source_def)

lemma normalizeEach_known:
  "normalizeEach rnd k (filter known_source raws) = normalizeEach rnd k raws"
proof (induction raws arbitrary: k)
  case Nil
  then show ?case by simp
next
  case (Cons p rest)
  then show ?case
    by (cases "known_source p")
      (simp_all add: normalizeOne_unknown split: prod.split option.split)
qed

text \<open>
  C10. A raw record whose \<open>_source\<close> is neither \<open>'GeckoTerminal'\<close> nor \<open>'DexScreener'\<close>
  contributes nothing: the loop normalizes it to \<open>null\<close> without a draw, and the output
  is that of the input with every such record removed, whatever else the record holds.
\<close>

theorem normalizeAllPools_ignores_unknown_sources:
  "normalizeAllPools rnd raws = normalizeAllPools rnd (filter known_source raws) \<and>
   (\<not> known_source p \<longrightarrow>
      normalizeOne rnd k p = (None, k) \<and>
      normalizeAllPools rnd (xs @ p # ys) = normalizeAllPools rnd (xs @ ys))"
proof (intro conjI impI)
  show "normalizeAllPools rnd raws = normalizeAllPools rnd (filter known_source raws)"
    by (simp add: normalizeAllPools_first_seen normalizeEach_known)
next
  assume "\<not> known_source p"
  then show "normalizeOne rnd k p = (None, k)"
    by (rule normalizeOne_unknown)
next
  assume u: "\<not> known_source p"
  have "normalizeEach rnd 0 (xs @ p # ys) = normalizeEach rnd 0 (filter known_source (xs @ p # ys))"
    by (simp only: normalizeEach_known)
  also have "\<dots> = normalizeEach rnd 0 (filter known_source (xs @ ys))"
    using u by simp
  also have "\<dots> = normalizeEach rnd 0 (xs @ ys)"
    by (simp only: normalizeEach_known)
  finally show "normalizeAllPools rnd (xs @ p # ys) = normalizeAllPools rnd (xs @ ys)"
    by (simp add: normalizeAllPools_first_seen)
qed

theorem normalizeAllPools_ignores_unknown_sources_witness:
  "normalizeAllPools draws_a [gecko_wbtc_usdc, other_source, dex_weth_usdc]
     = normalizeAllPools draws_a [gecko_wbtc_usdc, dex_weth_usdc] \<and>
   normalizeAllPools draws_a [other_source] = []"
proof -
  have u: "\<not> known_source other_source"
    by code_simp
  have "normalizeAllPools draws_a ([gecko_wbtc_usdc] @ other_source # [dex_weth_usdc])
     = normalizeAllPools draws_a ([gecko_wbtc_usdc] @ [dex_weth_usdc])"
    using normalizeAllPools_ignores_unknown_sources
      [of draws_a "[]" other_source 0 "[gecko_wbtc_usdc]" "[dex_weth_usdc]"] u
    by blast
  moreover have "normalizeAllPools draws_a ([] @ other_source # []) = normalizeAllPools draws_a ([] @ [])"
    using normalizeAllPools_ignores_unknown_sources [of draws_a "[]" other_source 0 "[]" "[]"] u
    by blast
  ultimately show ?thesis
    by (simp add: normalizeAllPools_def)
qed

subsection \<open>Validation\<close>

lemma typeof_number_iff: "typeof_number v \<longleftrightarrow> (\<exists>x. v = JNum x)"
  by (cases v) simp_all

lemma as_value_fields:
  "poolId (as_value q) = poolId q"
  "name (as_value q) = name q"
  "baseAsset (as_value q) = baseAsset q"
  "pairType (as_value q) = pairType q"
  "liquidityUsd (as_value q) = JNum (liquidityUsd q)"
  "volumeUsd24h (as_value q) = JNum (volumeUsd24h q)"
  by (simp_all add: as_value_def)

lemma validatePool_rejects:
  "validatePool p \<longleftrightarrow>
     \<not> (\<not> present (poolId p) \<or> name p = [] \<or> baseAsset p = None \<or> pairType p = None \<or>
        \<not> typeof_number (liquidityUsd p) \<or> \<not> typeof_number (volumeUsd24h p) \<or>
        (\<exists>l. liquidityUsd p = JNum l \<and> l < MIN_LIQUIDITY) \<or>
        (\<exists>v. volumeUsd24h p = JNum v \<and> v < MIN_VOLUME_24H) \<or>
        (\<exists>l. liquidityUsd p = JNum l \<and> l \<le> 0))"
proof (cases "typeof_number (liquidityUsd p) \<and> typeof_number (volumeUsd24h p)")
  case True
  then obtain l v where "liquidityUsd p = JNum l" and "volumeUsd24h p = JNum v"
    by (auto simp add: typeof_number_iff)
  then show ?thesis
    by (auto simp add: validatePool_def)
next
  case False
  then show ?thesis
    by (auto simp add: validatePool_def split: jsval.splits)
qed

text \<open>
  C3. \<open>validatePool\<close> returns \<open>false\<close> exactly when \<open>id\<close>, \<open>name\<close>, \<open>baseAsset\<close> or
  \<open>pairType\<close> is absent (\<open>undefined\<close>, \<open>null\<close> or empty, as \<open>!x\<close> tests it), or
  \<open>liquidityUsd\<close> or \<open>volumeUsd24h\<close> is not a number (a string, \<open>null\<close>, \<open>undefined\<close>, a
  boolean, an object), or \<open>liquidityUsd < MIN_LIQUIDITY\<close>, or
  \<open>volumeUsd24h < MIN_VOLUME_24H\<close>, or \<open>liquidityUsd <= 0\<close>. Hence every accepted pool
  object holds numbers with \<open>liquidityUsd >= MIN_LIQUIDITY\<close>,
  \<open>volumeUsd24h >= MIN_VOLUME_24H\<close> and \<open>liquidityUsd > 0\<close>; the same holds of an accepted
  canonical pool, and \<open>filterPools\<close> keeps exactly the accepted pools, in their input
  order.
\<close>

theorem validatePool_accepts:
  "(validatePool p \<longleftrightarrow>
      \<not> (\<not> present (poolId p) \<or> name p = [] \<or> baseAsset p = None \<or> pairType p = None \<or>
         \<not> typeof_number (liquidityUsd p) \<or> \<not> typeof_number (volumeUsd24h p) \<or>
         (\<exists>l. liquidityUsd p = JNum l \<and> l < MIN_LIQUIDITY) \<or>
         (\<exists>v. volumeUsd24h p = JNum v \<and> v < MIN_VOLUME_24H) \<or>
         (\<exists>l. liquidityUsd p = JNum l \<and> l \<le> 0))) \<and>
   (validatePool p \<longrightarrow>
      (\<exists>l v. liquidityUsd p = JNum l \<and> volumeUsd24h p = JNum v \<and>
             l \<ge> MIN_LIQUIDITY \<and> v \<ge> MIN_VOLUME_24H \<and> l > 0)) \<and>
   (validatePool (as_value q) \<longleftrightarrow>
      \<not> (\<not> present (poolId q) \<or> name q = [] \<or> baseAsset q = None \<or> pairType q = None \<or>
         liquidityUsd q < MIN_LIQUIDITY \<or> volumeUsd24h q < MIN_VOLUME_24H \<or>
         liquidityUsd q \<le> 0)) \<and>
   (validatePool (as_value q) \<longrightarrow>
      liquidityUsd q \<ge> MIN_LIQUIDITY \<and> volumeUsd24h q \<ge> MIN_VOLUME_24H \<and> liquidityUsd q > 0) \<and>
   filterPools ps = filter (\<lambda>q. validatePool (as_value q)) ps \<and>
   subseq (filterPools ps) ps \<and>
   set (filterPools ps) = {q \<in> set ps. validatePool (as_value q)}"
proof -
  have bounds: "validatePool p \<longrightarrow>
      (\<exists>l v. liquidityUsd p = JNum l \<and> volumeUsd24h p = JNum v \<and>
             l \<ge> MIN_LIQUIDITY \<and> v \<ge> MIN_VOLUME_24H \<and> l > 0)"
  proof
    assume ok: "validatePool p"
    then have "typeof_number (liquidityUsd p)" and "typeof_number (volumeUsd24h p)"
      using validatePool_rejects [of p] by auto
    then obtain l v where lv: "liquidityUsd p = JNum l" "volumeUsd24h p = JNum v"
      by (auto simp add: typeof_number_iff)
    with ok have "l \<ge> MIN_LIQUIDITY \<and> v \<ge> MIN_VOLUME_24H \<and> l > 0"
      using validatePool_rejects [of p] by auto
    with lv show "\<exists>l v. liquidityUsd p = JNum l \<and> volumeUsd24h p = JNum v \<and>
             l \<ge> MIN_LIQUIDITY \<and> v \<ge> MIN_VOLUME_24H \<and> l > 0"
      by simp
  qed
  have canonical: "validatePool (as_value q) \<longleftrightarrow>
      \<not> (\<not> present (poolId q) \<or> name q = [] \<or> baseAsset q = None \<or> pairType q = None \<or>
         liquidityUsd q < MIN_LIQUIDITY \<or> volumeUsd24h q < MIN_VOLUME_24H \<or>
         liquidityUsd q \<le> 0)"
    by (simp add: validatePool_rejects [of "as_value q"] as_value_fields)
  have canonical_bounds: "validatePool (as_value q) \<longrightarrow>
      liquidityUsd q \<ge> MIN_LIQUIDITY \<and> volumeUsd24h q \<ge> MIN_VOLUME_24H \<and> liquidityUsd q > 0"
    using canonical by auto
  have flt: "filterPools ps = filter (\<lambda>q. validatePool (as_value q)) ps"
    by (simp add: filterPools_def)
  have sub: "subseq (filterPools ps) ps"
    and mem: "set (filterPools ps) = {q \<in> set ps. validatePool (as_value q)}"
    by (simp_all add: flt)
  from validatePool_rejects [of p] bounds canonical canonical_bounds flt sub mem show ?thesis
    by (intro conjI)
qed

theorem validatePool_accepts_witness:
  "validatePool (as_value sample_pool) \<and>
   \<not> validatePool ((as_value sample_pool)\<lparr>liquidityUsd := JStr ''1000000''\<rparr>) \<and>
   \<not> validatePool ((as_value sample_pool)\<lparr>volumeUsd24h := JUndefined\<rparr>) \<and>
   \<not> validatePool (as_value (sample_pool\<lparr>liquidityUsd := 99999\<rparr>)) \<and>
   \<not> validatePool (as_value (sample_pool\<lparr>poolId := None\<rparr>)) \<and>
   filterPools [sample_pool\<lparr>volumeUsd24h := 9999\<rparr>, sample_pool, sample_pool\<lparr>name := []\<rparr>,
                sample_pool\<lparr>volumeUsd24h := 10000\<rparr>]
     = [sample_pool, sample_pool\<lparr>volumeUsd24h := 10000\<rparr>]"
proof -
  let ?ps = "[sample_pool\<lparr>volumeUsd24h := 9999\<rparr>, sample_pool, sample_pool\<lparr>name := []\<rparr>,
              sample_pool\<lparr>volumeUsd24h := 10000\<rparr>]"
  have canonical: "validatePool (as_value q) \<longleftrightarrow>
      \<not> (\<not> present (poolId q) \<or> name q = [] \<or> baseAsset q = None \<or> pairType q = None \<or>
         liquidityUsd q < MIN_LIQUIDITY \<or> volumeUsd24h q < MIN_VOLUME_24H \<or>
         liquidityUsd q \<le> 0)" for q
    using validatePool_accepts [of "as_value q" q "[]"] by blast
  have not_numeric: "\<not> validatePool p"
    if "\<not> typeof_number (liquidityUsd p) \<or> \<not> typeof_number (volumeUsd24h p)" for p
    using validatePool_accepts [of p sample_pool "[]"] that by blast
  have a: "validatePool (as_value sample_pool)"
    by (simp add: canonical sample_pool_def present_def or_empty_def MIN_LIQUIDITY_def
        MIN_VOLUME_24H_def)
  have b: "\<not> validatePool ((as_value sample_pool)\<lparr>liquidityUsd := JStr ''1000000''\<rparr>)"
    by (rule not_numeric) simp
  have c: "\<not> validatePool ((as_value sample_pool)\<lparr>volumeUsd24h := JUndefined\<rparr>)"
    by (rule not_numeric) simp
  have d: "\<not> validatePool (as_value (sample_pool\<lparr>liquidityUsd := 99999\<rparr>))"
    by (simp add: canonical MIN_LIQUIDITY_def)
  have e: "\<not> validatePool (as_value (sample_pool\<lparr>poolId := None\<rparr>))"
    by (simp add: canonical present_def or_empty_def)
  have "filterPools ?ps = filter (\<lambda>q. validatePool (as_value q)) ?ps"
    using validatePool_accepts [of "as_value sample_pool" sample_pool ?ps] by blast
  also have "\<dots> = [sample_pool, sample_pool\<lparr>volumeUsd24h := 10000\<rparr>]"
    by (simp add: validatePool_def as_value_def sample_pool_def present_def or_empty_def
        MIN_LIQUIDITY_def MIN_VOLUME_24H_def)
  finally have f: "filterPools ?ps = [sample_pool, sample_pool\<lparr>volumeUsd24h := 10000\<rparr>]" .
  from a b c d e f show ?thesis
    by (intro conjI)
qed

subsection \<open>Scoring\<close>

text \<open>
  C4. \<open>calculateTurnoverScore\<close> is \<open>volumeUsd24h / liquidityUsd\<close>, and \<open>0\<close> whenever
  \<open>liquidityUsd <= 0\<close>; liquidity 1,000,000 with volume 250,000 scores exactly 0.25.
\<close>

theorem calculateTurnoverScore_ratio:
  "(liquidityUsd p \<le> 0 \<longrightarrow> calculateTurnoverScore p = 0) \<and>
   (0 < liquidityUsd p \<longrightarrow> calculateTurnoverScore p = volumeUsd24h p / liquidityUsd p) \<and>
   (liquidityUsd p = 1000000 \<and> volumeUsd24h p = 250000 \<longrightarrow> calculateTurnoverScore p = 1 / 4)"
  by (simp add: calculateTurnoverScore_def)

theorem calculateTurnoverScore_ratio_witness:
  "calculateTurnoverScore sample_pool = 1 / 4 \<and>
   calculateTurnoverScore (sample_pool\<lparr>liquidityUsd := 0\<rparr>) = 0 \<and>
   calculateTurnoverScore (sample_pool\<lparr>liquidityUsd := 500000, volumeUsd24h := 50000\<rparr>) = 1 / 10"
  using calculateTurnoverScore_ratio [of sample_pool]
    calculateTurnoverScore_ratio [of "sample_pool\<lparr>liquidityUsd := 0\<rparr>"]
    calculateTurnoverScore_ratio [of "sample_pool\<lparr>liquidityUsd := 500000, volumeUsd24h := 50000\<rparr>"]
  by (simp add: sample_pool_def)

lemma set_insort_cmp: "set (insort_cmp cmp x ys) = insert x (set ys)"
  by (induction ys) auto

lemma mset_insort_cmp: "mset (insort_cmp cmp x ys) = add_mset x (mset ys)"
  by (induction ys) auto

lemma mset_array_sort: "mset (array_sort cmp xs) = mset xs"
  by (induction xs) (simp_all add: array_sort_def mset_insort_cmp)

lemma set_array_sort: "set (array_sort cmp xs) = set xs"
  using mset_array_sort [of cmp xs] by (metis set_mset_mset)

lemma set_scoreAndRankPools: "set (scoreAndRankPools ps) = scorePool ` set ps"
  by (simp add: scoreAndRankPools_def set_array_sort)

lemma scorePool_fields:
  "liquidityUsd (scorePool p) = liquidityUsd p"
  "volumeUsd24h (scorePool p) = volumeUsd24h p"
  "feeTier (scorePool p) = feeTier p"
  "score (scorePool p) = Some (calculateTurnoverScore p)"
  "apr (scorePool p) = Some (calculateApr (volumeUsd24h p) (liquidityUsd p) (effectiveFee p))"
  by (simp_all add: scorePool_def Let_def)

lemma effectiveFee_eq: "effectiveFee p = fee_or_default p"
  by (simp add: effectiveFee_def fee_or_default_def no_fee_def num_of_def DEFAULT_FEE_PERCENT_def
      split: option.splits)

lemma fee_or_default_nonzero: "fee_or_default p \<noteq> 0"
  by (simp add: fee_or_default_def DEFAULT_FEE_PERCENT_def split: option.splits)

lemma fee_or_default_scorePool: "fee_or_default (scorePool p) = fee_or_default p"
  by (simp add: fee_or_default_def scorePool_fields)

text \<open>
  C8, as stated: the yield of every scored pool follows the formula with the pool's
  \<open>feeTier\<close> whenever that is not \<open>null\<close>. A pool with \<open>feeTier = 0\<close> is scored with the
  default fee instead.
\<close>

theorem scored_apr_zero_fee_counterexample:
  "map apr (scoreAndRankPools [sample_pool\<lparr>feeTier := Some 0\<rparr>]) = [Some (219 / 8)] \<and>
   map (\<lambda>q. Some (spec_apr q)) (scoreAndRankPools [sample_pool\<lparr>feeTier := Some 0\<rparr>]) = [Some 0] \<and>
   map apr (scoreAndRankPools [sample_pool\<lparr>feeTier := Some 0\<rparr>])
     \<noteq> map (\<lambda>q. Some (spec_apr q)) (scoreAndRankPools [sample_pool\<lparr>feeTier := Some 0\<rparr>])"
  by (simp add: scoreAndRankPools_def array_sort_def scorePool_def sample_pool_def spec_apr_def
      calculateApr_def effectiveFee_def no_fee_def num_of_def DEFAULT_FEE_PERCENT_def Let_def)

text \<open>
  C8, amended: for every scored pool with \<open>liquidityUsd > 0\<close>, \<open>apr\<close> is
  \<open>((volumeUsd24h * (fee/100)) * 365 / liquidityUsd) * 100\<close>, where \<open>fee\<close> is the pool's
  \<open>feeTier\<close> when that is neither \<open>null\<close> nor \<open>0\<close>, and the configured default fee
  percentage exactly when it is \<open>null\<close> or \<open>0\<close>; with \<open>liquidityUsd <= 0\<close>, which the
  validator excludes, \<open>apr\<close> is \<open>0\<close>.
\<close>

theorem scored_apr_formula:
  "\<forall>q \<in> set (scoreAndRankPools ps).
     (0 < liquidityUsd q \<longrightarrow>
        apr q = Some (((volumeUsd24h q * (fee_or_default q / 100)) * 365 / liquidityUsd q) * 100)) \<and>
     (liquidityUsd q \<le> 0 \<longrightarrow> apr q = Some 0)"
proof
  fix q assume "q \<in> set (scoreAndRankPools ps)"
  then obtain p where q: "q = scorePool p"
    by (auto simp add: set_scoreAndRankPools)
  show "(0 < liquidityUsd q \<longrightarrow>
        apr q = Some (((volumeUsd24h q * (fee_or_default q / 100)) * 365 / liquidityUsd q) * 100)) \<and>
     (liquidityUsd q \<le> 0 \<longrightarrow> apr q = Some 0)"
    unfolding q
    by (simp add: scorePool_fields fee_or_default_scorePool effectiveFee_eq calculateApr_def
        fee_or_default_nonzero Let_def)
qed

theorem scored_apr_formula_witness:
  "map apr (scoreAndRankPools [sample_pool\<lparr>feeTier := Some 0\<rparr>, sample_pool\<lparr>feeTier := Some (1 / 20)\<rparr>])
     = [Some (219 / 8), Some (73 / 16)]"
proof -
  let ?ps = "[sample_pool\<lparr>feeTier := Some 0\<rparr>, sample_pool\<lparr>feeTier := Some (1 / 20)\<rparr>]"
  have out: "scoreAndRankPools ?ps = map scorePool ?ps"
    by (simp add: scoreAndRankPools_def array_sort_def rank_cmp_def scorePool_def sample_pool_def
        calculateTurnoverScore_def Let_def)
  have "\<forall>q \<in> set (map scorePool ?ps).
     (0 < liquidityUsd q \<longrightarrow>
        apr q = Some (((volumeUsd24h q * (fee_or_default q / 100)) * 365 / liquidityUsd q) * 100)) \<and>
     (liquidityUsd q \<le> 0 \<longrightarrow> apr q = Some 0)"
    using scored_apr_formula [of ?ps] unfolding out .
  then show ?thesis
    unfolding out
    by (simp add: scorePool_fields fee_or_default_scorePool fee_or_default_def sample_pool_def
        DEFAULT_FEE_PERCENT_def)
qed

text \<open>Insertion keeps a list sorted when the comparator is total and transitive on the
  elements at hand.\<close>

lemma sorted_insort_cmp:
  assumes "sorted_wrt (\<lambda>a b. cmp a b \<le> 0) ys"
    and "x \<in> S" and "set ys \<subseteq> S"
    and total: "\<And>a b. a \<in> S \<Longrightarrow> b \<in> S \<Longrightarrow> 0 < cmp a b \<Longrightarrow> cmp b a \<le> 0"
    and trans: "\<And>a b c. a \<in> S \<Longrightarrow> b \<in> S \<Longrightarrow> c \<in> S \<Longrightarrow> cmp a b \<le> 0 \<Longrightarrow> cmp b c \<le> 0
                  \<Longrightarrow> cmp a c \<le> 0"
  shows "sorted_wrt (\<lambda>a b. cmp a b \<le> 0) (insort_cmp cmp x ys)"
  using assms(1,3)
proof (induction ys)
  case Nil
  then show ?case by simp
next
  case (Cons y ys)
  show ?case
  proof (cases "cmp x y \<le> 0")
    case True
    have "cmp x z \<le> 0" if "z \<in> set ys" for z
    proof -
      have "cmp y z \<le> 0" using Cons.prems(1) that by simp
      with True show ?thesis
        using trans [of x y z] assms(2) Cons.prems(2) that by auto
    qed
    with True Cons.prems(1) show ?thesis by simp
  next
    case False
    then have "cmp y x \<le> 0"
      using total [of x y] assms(2) Cons.prems(2) by auto
    moreover have "sorted_wrt (\<lambda>a b. cmp a b \<le> 0) (insort_cmp cmp x ys)"
      using Cons by simp
    ultimately show ?thesis
      using False Cons.prems(1) by (auto simp add: set_insort_cmp)
  qed
qed

lemma sorted_array_sort:
  assumes "set xs \<subseteq> S"
    and total: "\<And>a b. a \<in> S \<Longrightarrow> b \<in> S \<Longrightarrow> 0 < cmp a b \<Longrightarrow> cmp b a \<le> 0"
    and trans: "\<And>a b c. a \<in> S \<Longrightarrow> b \<in> S \<Longrightarrow> c \<in> S \<Longrightarrow> cmp a b \<le> 0 \<Longrightarrow> cmp b c \<le> 0
                  \<Longrightarrow> cmp a c \<le> 0"
  shows "sorted_wrt (\<lambda>a b. cmp a b \<le> 0) (array_sort cmp xs)"
  using assms(1)
proof (induction xs)
  case Nil
  then show ?case by (simp add: array_sort_def)
next
  case (Cons x xs)
  have "sorted_wrt (\<lambda>a b. cmp a b \<le> 0) (insort_cmp cmp x (array_sort cmp xs))"
  proof (rule sorted_insort_cmp [where S = S])
    show "sorted_wrt (\<lambda>a b. cmp a b \<le> 0) (array_sort cmp xs)" using Cons by simp
    show "x \<in> S" using Cons.prems by simp
    show "set (array_sort cmp xs) \<subseteq> S" using Cons.prems by (simp add: set_array_sort)
  qed (use total trans in blast)+
  then show ?case by (simp add: array_sort_def)
qed

text \<open>Insertion is stable: within a class of elements that compare equal to each other,
  the new element goes in front.\<close>

lemma filter_insort_cmp:
  assumes "\<And>y. y \<in> set ys \<Longrightarrow> P x \<Longrightarrow> P y \<Longrightarrow> cmp x y \<le> 0"
  shows "filter P (insort_cmp cmp x ys) = (if P x then x # filter P ys else filter P ys)"
  using assms by (induction ys) auto

lemma filter_array_sort:
  assumes "\<And>x y. x \<in> set xs \<Longrightarrow> y \<in> set xs \<Longrightarrow> P x \<Longrightarrow> P y \<Longrightarrow> cmp x y \<le> 0"
  shows "filter P (array_sort cmp xs) = filter P xs"
  using assms
proof (induction xs)
  case Nil
  then show ?case by (simp add: array_sort_def)
next
  case (Cons x xs)
  have "filter P (insort_cmp cmp x (array_sort cmp xs))
        = (if P x then x # filter P (array_sort cmp xs) else filter P (array_sort cmp xs))"
    by (rule filter_insort_cmp) (use Cons.prems in \<open>auto simp add: set_array_sort\<close>)
  moreover have "filter P (array_sort cmp xs) = filter P xs"
    using Cons by auto
  ultimately show ?case by (simp add: array_sort_def)
qed

text \<open>On scored pools the comparator is the lexicographic order: score descending, then
  liquidity descending.\<close>

lemma rank_cmp_scored:
  assumes "score a = Some sa" and "score b = Some sb"
  shows "rank_cmp a b \<le> 0 \<longleftrightarrow> sb < sa \<or> (sb = sa \<and> liquidityUsd b \<le> liquidityUsd a)"
  using assms by (auto simp add: rank_cmp_def num_of_def)

lemma sorted_scoreAndRankPools:
  "sorted_wrt (\<lambda>a b. rank_cmp a b \<le> 0) (scoreAndRankPools ps)"
  unfolding scoreAndRankPools_def
proof (rule sorted_array_sort [where S = "{q. score q \<noteq> None}"])
  show "set (map scorePool ps) \<subseteq> {q. score q \<noteq> None}"
    by (auto simp add: scorePool_fields)
next
  fix a b :: pool
  assume "a \<in> {q. score q \<noteq> None}" "b \<in> {q. score q \<noteq> None}" "0 < rank_cmp a b"
  then show "rank_cmp b a \<le> 0"
    by (auto simp add: rank_cmp_def num_of_def split: if_splits)
next
  fix a b c :: pool
  assume "a \<in> {q. score q \<noteq> None}" "b \<in> {q. score q \<noteq> None}" "c \<in> {q. score q \<noteq> None}"
    and "rank_cmp a b \<le> 0" "rank_cmp b c \<le> 0"
  then show "rank_cmp a c \<le> 0"
    by (auto simp add: rank_cmp_scored)
qed

lemma scored_has_score:
  "q \<in> set (scoreAndRankPools ps) \<Longrightarrow> score q = Some (calculateTurnoverScore q)"
  by (auto simp add: scoreAndRankPools_def set_array_sort scorePool_fields calculateTurnoverScore_def)

text \<open>
  C5. In the list \<open>scoreAndRankPools\<close> returns, \<open>score\<close> is non-increasing along the
  sequence; between adjacent entries of equal \<open>score\<close>, \<open>liquidityUsd\<close> is non-increasing;
  and the pools of one score and one liquidity stand in the order of the input. The list
  is a permutation of the scored input, and every score is the turnover ratio.
\<close>

theorem scoreAndRankPools_order:
  "sorted_wrt (\<lambda>a b. num_of (score b) \<le> num_of (score a)) (scoreAndRankPools ps) \<and>
   (\<forall>i. Suc i < length (scoreAndRankPools ps) \<and>
        score (scoreAndRankPools ps ! i) = score (scoreAndRankPools ps ! Suc i)
        \<longrightarrow> liquidityUsd (scoreAndRankPools ps ! Suc i) \<le> liquidityUsd (scoreAndRankPools ps ! i)) \<and>
   (\<forall>s l. filter (\<lambda>q. score q = Some s \<and> liquidityUsd q = l) (scoreAndRankPools ps)
          = map scorePool (filter (\<lambda>p. calculateTurnoverScore p = s \<and> liquidityUsd p = l) ps)) \<and>
   (\<forall>q \<in> set (scoreAndRankPools ps). score q = Some (calculateTurnoverScore q)) \<and>
   mset (scoreAndRankPools ps) = mset (map scorePool ps)"
proof (intro conjI allI ballI)
  let ?out = "scoreAndRankPools ps"
  have srt: "sorted_wrt (\<lambda>a b. rank_cmp a b \<le> 0) ?out"
    by (rule sorted_scoreAndRankPools)
  have some: "\<exists>s. score q = Some s" if "q \<in> set ?out" for q
    using scored_has_score [OF that] by simp
  have weaker: "num_of (score b) \<le> num_of (score a)"
    if "a \<in> set ?out" "b \<in> set ?out" "rank_cmp a b \<le> 0" for a b
    using that some [of a] some [of b] by (auto simp add: rank_cmp_scored num_of_def)
  show "sorted_wrt (\<lambda>a b. num_of (score b) \<le> num_of (score a)) ?out"
    by (rule sorted_wrt_mono_rel [OF _ srt]) (use weaker in blast)
  show "Suc i < length ?out \<and> score (?out ! i) = score (?out ! Suc i)
        \<longrightarrow> liquidityUsd (?out ! Suc i) \<le> liquidityUsd (?out ! i)" for i
  proof
    assume h: "Suc i < length ?out \<and> score (?out ! i) = score (?out ! Suc i)"
    then have "rank_cmp (?out ! i) (?out ! Suc i) \<le> 0"
      using srt by (simp add: sorted_wrt_iff_nth_less)
    with h show "liquidityUsd (?out ! Suc i) \<le> liquidityUsd (?out ! i)"
      by (simp add: rank_cmp_def)
  qed
  show "filter (\<lambda>q. score q = Some s \<and> liquidityUsd q = l) ?out
          = map scorePool (filter (\<lambda>p. calculateTurnoverScore p = s \<and> liquidityUsd p = l) ps)" for s l
  proof -
    have "filter (\<lambda>q. score q = Some s \<and> liquidityUsd q = l) ?out
          = filter (\<lambda>q. score q = Some s \<and> liquidityUsd q = l) (map scorePool ps)"
      unfolding scoreAndRankPools_def
      by (rule filter_array_sort) (simp add: rank_cmp_def)
    also have "\<dots> = map scorePool (filter (\<lambda>p. calculateTurnoverScore p = s \<and> liquidityUsd p = l) ps)"
      by (simp add: filter_map comp_def scorePool_fields)
    finally show ?thesis .
  qed
  show "score q = Some (calculateTurnoverScore q)" if "q \<in> set ?out" for q
    using that by (rule scored_has_score)
  show "mset ?out = mset (map scorePool ps)"
    unfolding scoreAndRankPools_def by (rule mset_array_sort)
qed

theorem scoreAndRankPools_order_witness:
  "map name (filter (\<lambda>q. score q = Some (1 / 4) \<and> liquidityUsd q = 1000000)
               (scoreAndRankPools ranking_input)) = [''WBTC/USDC'', ''second''] \<and>
   map name (scoreAndRankPools ranking_input) = [''big'', ''WBTC/USDC'', ''second'', ''low''] \<and>
   map score (scoreAndRankPools ranking_input) = [Some (1 / 4), Some (1 / 4), Some (1 / 4), Some (1 / 10)]"
proof -
  have "filter (\<lambda>q. score q = Some (1 / 4) \<and> liquidityUsd q = 1000000)
               (scoreAndRankPools ranking_input)
        = map scorePool (filter (\<lambda>p. calculateTurnoverScore p = 1 / 4 \<and> liquidityUsd p = 1000000)
                                ranking_input)"
    using scoreAndRankPools_order [of ranking_input] by blast
  moreover have "map name (map scorePool
        (filter (\<lambda>p. calculateTurnoverScore p = 1 / 4 \<and> liquidityUsd p = 1000000) ranking_input))
      = [''WBTC/USDC'', ''second'']"
    by code_simp
  moreover have "map name (scoreAndRankPools ranking_input) = [''big'', ''WBTC/USDC'', ''second'', ''low'']"
    by code_simp
  moreover have "map score (scoreAndRankPools ranking_input)
      = [Some (1 / 4), Some (1 / 4), Some (1 / 4), Some (1 / 10)]"
    by code_simp
  ultimately show ?thesis by simp
qed

subsection \<open>Determinism of the pipeline\<close>

lemma shape_no_draw:
  assumes "\<And>pt. f pt = f' pt" and "g = k"
  shows "(case d of None \<Rightarrow> (None, k)
          | Some pt \<Rightarrow> if c then (None, k) else (Some (f pt), g))
       = (fst (case d of None \<Rightarrow> (None, k')
               | Some pt \<Rightarrow> if c then (None, k') else (Some (f' pt), g')), k)"
  using assms by (simp split: option.split)

text \<open>With an id on the record no draw is made, and neither the record nor the count of
  draws depends on the source of draws.\<close>

lemma gecko_no_draw:
  assumes "present (raw_id p)"
  shows "normalizeGeckoTerminalPool rnd k p = (fst (normalizeGeckoTerminalPool rnd' k' p), k)"
  unfolding normalizeGeckoTerminalPool_def Let_def
  by (rule shape_no_draw) (simp_all add: assms)

lemma normalizeOne_no_draw:
  assumes "tag_source p = Some ''GeckoTerminal'' \<longrightarrow> present (raw_id p)"
  shows "normalizeOne rnd k p = (fst (normalizeOne rnd' k' p), k)"
  using assms gecko_no_draw [of p rnd k rnd' k']
  by (auto simp add: normalizeOne_def)

lemma normalizeEach_no_draw:
  assumes "\<forall>p \<in> set raws. tag_source p = Some ''GeckoTerminal'' \<longrightarrow> present (raw_id p)"
  shows "normalizeEach rnd k raws = normalizeEach rnd' k' raws"
  using assms
proof (induction raws arbitrary: k k')
  case Nil
  then show ?case by simp
next
  case (Cons p rest)
  then have one: "normalizeOne rnd k p = (fst (normalizeOne rnd' k' p), k)"
    using normalizeOne_no_draw [of p rnd k rnd' k'] by simp
  obtain r j where other: "normalizeOne rnd' k' p = (r, j)"
    by (cases "normalizeOne rnd' k' p")
  have "normalizeEach rnd k rest = normalizeEach rnd' j rest"
    using Cons by simp
  with one other show ?case
    by (cases r) simp_all
qed

text \<open>
  C9, as stated: two runs of normalize, validate and categorize on the same raw records
  give the same categorized output. A GeckoTerminal record without an id gets
  \<open>'gt-'\<close> and a fresh draw of \<open>Math.random\<close> as its id, so two runs that draw
  differently differ.
\<close>

theorem pipeline_random_id_counterexample:
  "map (\<lambda>(key, ps). map poolId ps) (pipeline draws_a [gecko_wbtc_usdc])
     = [[Some ''gt-k3x9f0q1z''], [], [], []] \<and>
   map (\<lambda>(key, ps). map poolId ps) (pipeline draws_b [gecko_wbtc_usdc])
     = [[Some ''gt-m81vd2c7p''], [], [], []] \<and>
   pipeline draws_a [gecko_wbtc_usdc] \<noteq> pipeline draws_b [gecko_wbtc_usdc]"
  by code_simp

text \<open>
  C9, amended: two runs of normalize, validate and categorize on the same raw records
  give the same categorized output, in membership and order, whenever every
  GeckoTerminal record carries a non-empty id, whatever \<open>Math.random\<close> returns.
\<close>

theorem pipeline_deterministic_with_ids:
  assumes "\<forall>p \<in> set raws. tag_source p = Some ''GeckoTerminal'' \<longrightarrow> present (raw_id p)"
  shows "pipeline rnd raws = pipeline rnd' raws"
proof -
  have "normalizeEach rnd 0 raws = normalizeEach rnd' 0 raws"
    using assms by (rule normalizeEach_no_draw)
  then show ?thesis
    by (simp add: pipeline_def normalizeAllPools_first_seen)
qed

theorem pipeline_deterministic_with_ids_witness:
  "pipeline draws_a [gecko_wbtc_tbtc, dex_weth_usdc] = pipeline draws_b [gecko_wbtc_tbtc, dex_weth_usdc]"
proof -
  have "\<forall>p \<in> set [gecko_wbtc_tbtc, dex_weth_usdc].
          tag_source p = Some ''GeckoTerminal'' \<longrightarrow> present (raw_id p)"
    by code_simp
  then show ?thesis
    by (rule pipeline_deterministic_with_ids)
qed

subsection \<open>Orientation, invariants of normalized pools, category buckets\<close>

lemma resolve_usdc: "resolveAssetClass (Some ''usdc'') = Some STABLE"
  by code_simp

text \<open>
  Orientation rule: a record with base symbol \<open>usdc\<close> and quote symbol \<open>wbtc\<close> is
  swapped to base \<open>BTC\<close>, quote \<open>STABLE\<close> and classified \<open>'btc-stable'\<close>, by either
  normalizer.
\<close>

theorem orientation_usdc_wbtc:
  "(gecko_base_symbol p = ''usdc'' \<and> gecko_quote_symbol p = ''wbtc'' \<longrightarrow>
      (\<exists>q. fst (normalizeGeckoTerminalPool rnd k p) = Some q \<and> baseAsset q = Some BTC \<and>
            quoteAsset q = Some STABLE \<and> pairType q = Some BtcStable)) \<and>
   (baseToken_symbol p = Some ''usdc'' \<and> quoteToken_symbol p = Some ''wbtc'' \<longrightarrow>
      (\<exists>q. normalizeDexScreenerPool p = Some q \<and> baseAsset q = Some BTC \<and>
            quoteAsset q = Some STABLE \<and> pairType q = Some BtcStable))"
proof (intro conjI impI)
  assume "gecko_base_symbol p = ''usdc'' \<and> gecko_quote_symbol p = ''wbtc''"
  then show "\<exists>q. fst (normalizeGeckoTerminalPool rnd k p) = Some q \<and> baseAsset q = Some BTC \<and>
            quoteAsset q = Some STABLE \<and> pairType q = Some BtcStable"
    unfolding gecko_base_symbol_def gecko_quote_symbol_def
    by (simp add: normalizeGeckoTerminalPool_def Let_def determinePairType_def resolve_usdc
        resolve_wbtc)
next
  assume "baseToken_symbol p = Some ''usdc'' \<and> quoteToken_symbol p = Some ''wbtc''"
  then show "\<exists>q. normalizeDexScreenerPool p = Some q \<and> baseAsset q = Some BTC \<and>
            quoteAsset q = Some STABLE \<and> pairType q = Some BtcStable"
    by (simp add: normalizeDexScreenerPool_def Let_def determinePairType_def resolve_usdc
        resolve_wbtc or_empty_def)
qed

theorem orientation_usdc_wbtc_witness:
  "\<exists>q. fst (normalizeGeckoTerminalPool draws_a 0 gecko_usdc_wbtc) = Some q \<and>
       baseAsset q = Some BTC \<and> quoteAsset q = Some STABLE \<and> pairType q = Some BtcStable"
proof -
  have "gecko_base_symbol gecko_usdc_wbtc = ''usdc'' \<and> gecko_quote_symbol gecko_usdc_wbtc = ''wbtc''"
    by code_simp
  then show ?thesis
    using orientation_usdc_wbtc [of gecko_usdc_wbtc draws_a 0] by blast
qed

text \<open>
  End-to-end scenario: a valid WBTC/USDC pool with liquidity 500,000 and volume 50,000
  from GeckoTerminal and a DexScreener record without a liquidity field give exactly one
  pool, in category \<open>'btc-stable'\<close>, with score 0.1.
\<close>

theorem end_to_end_scenario:
  "map (\<lambda>(key, ps). (key, map (\<lambda>q. (name q, score q)) ps))
       (pipeline draws_a [gecko_wbtc_usdc, dex_no_liquidity])
     = [(BtcStable, [(''WBTC/USDC'', Some (1 / 10))]), (EthStable, []), (BtcEth, []), (Wrapped, [])]"
  by code_simp

lemma foldl_push_category:
  "foldl (\<lambda>cats p. push_category p cats) cats pools
     = map (\<lambda>(key, ps). (key, ps @ filter (\<lambda>p. pairType p = Some key) pools)) cats"
proof (induction pools arbitrary: cats)
  case Nil
  then show ?case by simp
next
  case (Cons p pools)
  have "push_category p cats
        = map (\<lambda>(key, ps). (key, ps @ filter (\<lambda>p. pairType p = Some key) [p])) cats"
    by (cases "pairType p") (auto simp add: push_category_def)
  with Cons show ?case
    by (simp add: comp_def case_prod_unfold)
qed

text \<open>
  The categorizer returns the four keys in their fixed order, each with the ranked list
  of the pools of that pair type; a key without pools has the empty list.
\<close>

theorem categorizePools_buckets:
  "categorizePools pools
     = map (\<lambda>key. (key, scoreAndRankPools (filter (\<lambda>p. pairType p = Some key) pools)))
           [BtcStable, EthStable, BtcEth, Wrapped]"
  by (simp add: categorizePools_def foldl_push_category empty_categories_def)

theorem categorizePools_buckets_witness:
  "map (\<lambda>(key, ps). (key, map name ps)) (categorizePools ranking_input)
     = [(BtcStable, [''big'', ''WBTC/USDC'', ''second'', ''low'']), (EthStable, []), (BtcEth, []),
        (Wrapped, [])]"
proof -
  have "categorizePools ranking_input
     = map (\<lambda>key. (key, scoreAndRankPools (filter (\<lambda>p. pairType p = Some key) ranking_input)))
           [BtcStable, EthStable, BtcEth, Wrapped]"
    by (rule categorizePools_buckets)
  moreover have "map (\<lambda>(key, ps). (key, map name ps))
      (map (\<lambda>key. (key, scoreAndRankPools (filter (\<lambda>p. pairType p = Some key) ranking_input)))
           [BtcStable, EthStable, BtcEth, Wrapped])
     = [(BtcStable, [''big'', ''WBTC/USDC'', ''second'', ''low'']), (EthStable, []), (BtcEth, []),
        (Wrapped, [])]"
    by code_simp
  ultimately show ?thesis by simp
qed

lemma determinePairType_same: "determinePairType b b = Some pt \<Longrightarrow> pt = Wrapped"
  by (simp add: determinePairType_def split: if_splits)

lemma determinePairType_classes:
  "determinePairType b q = Some pt \<Longrightarrow> b \<noteq> None \<and> q \<noteq> None"
  by (auto simp add: determinePairType_def split: if_splits)

lemma guarded_invariant_fst:
  assumes "fst (case determinePairType b q' of
                  None \<Rightarrow> (None, k)
                | Some pt \<Rightarrow> if \<not> w \<and> b = q' then (None, k) else (Some (f pt), g)) = Some r"
    and "\<And>pt. pairType (f pt) = Some pt \<and> baseAsset (f pt) = b \<and> quoteAsset (f pt) = q' \<and>
              score (f pt) = None \<and> apr (f pt) = None"
  shows "(\<exists>pt. pairType r = Some pt \<and> determinePairType (baseAsset r) (quoteAsset r) = Some pt) \<and>
         score r = None \<and> apr r = None"
  using assms by (auto split: option.splits if_splits)

lemma guarded_invariant:
  assumes "(case determinePairType b q' of
              None \<Rightarrow> None
            | Some pt \<Rightarrow> if \<not> w \<and> b = q' then None else Some (f pt)) = Some r"
    and "\<And>pt. pairType (f pt) = Some pt \<and> baseAsset (f pt) = b \<and> quoteAsset (f pt) = q' \<and>
              score (f pt) = None \<and> apr (f pt) = None"
  shows "(\<exists>pt. pairType r = Some pt \<and> determinePairType (baseAsset r) (quoteAsset r) = Some pt) \<and>
         score r = None \<and> apr r = None"
  using assms by (auto split: option.splits if_splits)

lemma gecko_invariant:
  assumes "fst (normalizeGeckoTerminalPool rnd k p) = Some q"
  shows "(\<exists>pt. pairType q = Some pt \<and> determinePairType (baseAsset q) (quoteAsset q) = Some pt) \<and>
         score q = None \<and> apr q = None"
  by (rule guarded_invariant_fst [OF assms [unfolded normalizeGeckoTerminalPool_def Let_def]]) simp

lemma dex_invariant:
  assumes "normalizeDexScreenerPool p = Some q"
  shows "(\<exists>pt. pairType q = Some pt \<and> determinePairType (baseAsset q) (quoteAsset q) = Some pt) \<and>
         score q = None \<and> apr q = None"
  by (rule guarded_invariant [OF assms [unfolded normalizeDexScreenerPool_def Let_def]]) simp

lemma first_seen_set: "set (first_seen seen ps) \<subseteq> set ps"
  by (induction ps arbitrary: seen) auto

lemma normalizeEach_origin:
  "q \<in> set (normalizeEach rnd k raws) \<Longrightarrow> \<exists>p j. p \<in> set raws \<and> fst (normalizeOne rnd j p) = Some q"
proof (induction raws arbitrary: k)
  case Nil
  then show ?case by simp
next
  case (Cons p rest)
  obtain r k' where one: "normalizeOne rnd k p = (r, k')"
    by (cases "normalizeOne rnd k p")
  show ?case
  proof (cases "r = Some q")
    case True
    with one have "fst (normalizeOne rnd k p) = Some q" by simp
    then show ?thesis by (intro exI [of _ p] exI [of _ k]) simp
  next
    case False
    with one Cons.prems have "q \<in> set (normalizeEach rnd k' rest)"
      by (cases r) auto
    then obtain p' j where "p' \<in> set rest" and "fst (normalizeOne rnd j p') = Some q"
      using Cons.IH by blast
    then show ?thesis by (intro exI [of _ p'] exI [of _ j]) simp
  qed
qed

lemma normalizeOne_invariant:
  assumes "fst (normalizeOne rnd k p) = Some q"
  shows "(\<exists>pt. pairType q = Some pt \<and> determinePairType (baseAsset q) (quoteAsset q) = Some pt) \<and>
         score q = None \<and> apr q = None"
  using assms gecko_invariant [of rnd k p q] dex_invariant [of p q]
  by (auto simp add: normalizeOne_def split: if_splits)

text \<open>
  Every pool that \<open>normalizeAllPools\<close> returns has a pair type, which is the one
  \<open>determinePairType\<close> gives its two asset classes; both classes are resolved; base and
  quote class differ unless the pair type is \<open>'wrapped'\<close>; \<open>score\<close> and \<open>apr\<close> are
  still \<open>null\<close>.
\<close>

theorem normalized_pool_invariants:
  "\<forall>q \<in> set (normalizeAllPools rnd raws).
     pairType q = determinePairType (baseAsset q) (quoteAsset q) \<and>
     pairType q \<noteq> None \<and> baseAsset q \<noteq> None \<and> quoteAsset q \<noteq> None \<and>
     (baseAsset q \<noteq> quoteAsset q \<or> pairType q = Some Wrapped) \<and>
     score q = None \<and> apr q = None"
proof
  fix q assume "q \<in> set (normalizeAllPools rnd raws)"
  then have "q \<in> set (normalizeEach rnd 0 raws)"
    using first_seen_set [of "{}" "normalizeEach rnd 0 raws"]
    by (auto simp add: normalizeAllPools_first_seen)
  then obtain p j where "fst (normalizeOne rnd j p) = Some q"
    using normalizeEach_origin by blast
  then have "(\<exists>pt. pairType q = Some pt \<and> determinePairType (baseAsset q) (quoteAsset q) = Some pt) \<and>
         score q = None \<and> apr q = None"
    by (rule normalizeOne_invariant)
  then obtain pt where inv: "pairType q = Some pt" "score q = None" "apr q = None"
    and pt: "determinePairType (baseAsset q) (quoteAsset q) = Some pt"
    by auto
  show "pairType q = determinePairType (baseAsset q) (quoteAsset q) \<and>
     pairType q \<noteq> None \<and> baseAsset q \<noteq> None \<and> quoteAsset q \<noteq> None \<and>
     (baseAsset q \<noteq> quoteAsset q \<or> pairType q = Some Wrapped) \<and>
     score q = None \<and> apr q = None"
    using inv pt determinePairType_same [of "baseAsset q" pt]
      determinePairType_classes [of "baseAsset q" "quoteAsset q" pt]
    by auto
qed

theorem normalized_pool_invariants_witness:
  "list_all (\<lambda>q. baseAsset q \<noteq> quoteAsset q \<or> pairType q = Some Wrapped)
     (normalizeAllPools draws_a [gecko_wbtc_tbtc, gecko_usdc_wbtc, dex_weth_usdc]) \<and>
   map (\<lambda>q. (baseAsset q, quoteAsset q, pairType q))
     (normalizeAllPools draws_a [gecko_wbtc_tbtc, gecko_usdc_wbtc, dex_weth_usdc])
   = [(Some BTC, Some BTC, Some Wrapped), (Some BTC, Some STABLE, Some BtcStable),
      (Some ETH, Some STABLE, Some EthStable)]"
proof -
  have "list_all (\<lambda>q. baseAsset q \<noteq> quoteAsset q \<or> pairType q = Some Wrapped)
     (normalizeAllPools draws_a [gecko_wbtc_tbtc, gecko_usdc_wbtc, dex_weth_usdc])"
    using normalized_pool_invariants [of draws_a "[gecko_wbtc_tbtc, gecko_usdc_wbtc, dex_weth_usdc]"]
    unfolding list_all_iff by blast
  moreover have "map (\<lambda>q. (baseAsset q, quoteAsset q, pairType q))
     (normalizeAllPools draws_a [gecko_wbtc_tbtc, gecko_usdc_wbtc, dex_weth_usdc])
   = [(Some BTC, Some BTC, Some Wrapped), (Some BTC, Some STABLE, Some BtcStable),
      (Some ETH, Some STABLE, Some EthStable)]"
    by code_simp
  ultimately show ?thesis by simp
qed

end
